theory Spec2Isabelle
  imports Main "HOL-Library.Sublist" "HOL-Library.Monad_Syntax"
begin

chapter \<open>The model\<close>

section \<open>Python values shared by all scrapers\<close>

text \<open>
  A Python \<open>str\<close> is modelled as a \<open>string\<close>; every \<open>char\<close> stands for one character with
  code point below 256. Exceptions are values: a function of the source that can raise returns
  \<open>py_exn + 'a\<close>, with \<open>Inl\<close> for the exception.
\<close>

datatype py_exn = UnboundLocalError | ValueError | IndexError | KeyError | OverflowError | Raised string

text \<open>\<open>str.isspace\<close> on code points below 256; the class \<open>\s\<close> of \<open>re\<close> is the same set.\<close>

definition isspace :: "char \<Rightarrow> bool" where
  "isspace c = (c \<in> set [CHR 0x09, CHR 0x0A, CHR 0x0B, CHR 0x0C, CHR 0x0D,
                         CHR 0x1C, CHR 0x1D, CHR 0x1E, CHR 0x1F, CHR 0x20, CHR 0x85, CHR 0xA0])"

definition lstrip :: "string \<Rightarrow> string" where
  "lstrip s = dropWhile isspace s"

definition rstrip :: "string \<Rightarrow> string" where
  "rstrip s = rev (dropWhile isspace (rev s))"

definition strip :: "string \<Rightarrow> string" where
  "strip s = rstrip (lstrip s)"

text \<open>
  \<open>str.lower\<close> on code points below 256: the ASCII capitals and the capitals 0xC0 to 0xDE
  of Latin-1 (without the multiplication sign 0xD7) move to their small letters, 32 places up;
  every other character is left alone.
\<close>

definition lower_char :: "char \<Rightarrow> char" where
  "lower_char c =
     (case map_of (zip (''ABCDEFGHIJKLMNOPQRSTUVWXYZ'' @
                        [CHR 0xC0, CHR 0xC1, CHR 0xC2, CHR 0xC3, CHR 0xC4, CHR 0xC5, CHR 0xC6,
                         CHR 0xC7, CHR 0xC8, CHR 0xC9, CHR 0xCA, CHR 0xCB, CHR 0xCC, CHR 0xCD,
                         CHR 0xCE, CHR 0xCF, CHR 0xD0, CHR 0xD1, CHR 0xD2, CHR 0xD3, CHR 0xD4,
                         CHR 0xD5, CHR 0xD6, CHR 0xD8, CHR 0xD9, CHR 0xDA, CHR 0xDB, CHR 0xDC,
                         CHR 0xDD, CHR 0xDE])
                       (''abcdefghijklmnopqrstuvwxyz'' @
                        [CHR 0xE0, CHR 0xE1, CHR 0xE2, CHR 0xE3, CHR 0xE4, CHR 0xE5, CHR 0xE6,
                         CHR 0xE7, CHR 0xE8, CHR 0xE9, CHR 0xEA, CHR 0xEB, CHR 0xEC, CHR 0xED,
                         CHR 0xEE, CHR 0xEF, CHR 0xF0, CHR 0xF1, CHR 0xF2, CHR 0xF3, CHR 0xF4,
                         CHR 0xF5, CHR 0xF6, CHR 0xF8, CHR 0xF9, CHR 0xFA, CHR 0xFB, CHR 0xFC,
                         CHR 0xFD, CHR 0xFE])) c
      of Some d \<Rightarrow> d | None \<Rightarrow> c)"

definition lower :: "string \<Rightarrow> string" where
  "lower s = map lower_char s"

section \<open>clean_text\<close>

text \<open>
  \<open>re.sub(cls + "+", rep, s)\<close> for a character class \<open>cls\<close>: every maximal run of characters
  of the class is replaced by \<open>rep\<close>. With a single-character pattern \<open>re.sub(cls, "", s)\<close> the
  characters of the class are filtered out.
\<close>

function sub_runs :: "(char \<Rightarrow> bool) \<Rightarrow> string \<Rightarrow> string \<Rightarrow> string" where
  "sub_runs P rep [] = []"
| "sub_runs P rep (c # s) =
     (if P c then rep @ sub_runs P rep (dropWhile P s) else c # sub_runs P rep s)"
  by pat_completeness auto
termination
  by (relation "measure (\<lambda>(P, rep, s). length s)") (auto simp: less_Suc_eq_le length_dropWhile_le)

text \<open>
  \<open>clean_text\<close> of mbg_news_detik.py, mbg_news_kompas.py, mbg_news_tempo.py and
  mbg_news_tribunnews.py: \<open>re.sub(r"\s+", " ", s or "").strip()\<close>. The argument is \<open>None\<close> for
  an absent value.
\<close>

definition clean_text :: "string option \<Rightarrow> string" where
  "clean_text s = strip (sub_runs isspace '' '' (case s of None \<Rightarrow> [] | Some x \<Rightarrow> x))"

text \<open>
  The character classes of the other variants: \<open>[^\x00-\x7F]\<close>, \<open>[\x00-\x1F\x7F-\x9F]\<close>, and the
  characters that \<open>[^\w\s.,!?;:()\-...\"']\<close> does not remove. That last class is applied to text
  without any character above 127, so \<open>\w\<close> is given on ASCII; the three letters of the class
  below 256 are 0xC4, 0xEE and 0xEC.
\<close>

definition non_ascii :: "char \<Rightarrow> bool" where
  "non_ascii c = ((of_char c :: nat) > 127)"

definition control_char :: "char \<Rightarrow> bool" where
  "control_char c = (let n = (of_char c :: nat) in n \<le> 31 \<or> (127 \<le> n \<and> n \<le> 159))"

definition word_char :: "char \<Rightarrow> bool" where
  "word_char c = (c \<in> set ''abcdefghijklmnopqrstuvwxyzABCDEFGHIJKLMNOPQRSTUVWXYZ0123456789_'')"

text \<open>
  \<open>\w\<close> of a \<open>str\<close> pattern on code points below 256: the ASCII word characters and the
  characters for which \<open>str.isalnum\<close> holds, which are the two ordinal indicators, the
  superscript digits, the micro sign, the three fractions and the letters of Latin-1.
\<close>

definition word_char_u :: "char \<Rightarrow> bool" where
  "word_char_u c =
     (word_char c
      \<or> c \<in> set [CHR 0xAA, CHR 0xB2, CHR 0xB3, CHR 0xB5, CHR 0xB9, CHR 0xBA, CHR 0xBC, CHR 0xBD, CHR 0xBE]
      \<or> (let n = (of_char c :: nat) in 192 \<le> n \<and> n \<noteq> 215 \<and> n \<noteq> 247))"

definition kept_char :: "char \<Rightarrow> bool" where
  "kept_char c = (word_char c \<or> isspace c \<or> c \<in> set ''.,!?;:()-'' \<or> c = CHR 0x22 \<or> c = CHR 0x27
                  \<or> c \<in> set [CHR 0xC4, CHR 0xEE, CHR 0xEC])"

text \<open>\<open>clean_text\<close> of mbg_news_republika.py.\<close>

definition clean_text_republika :: "string option \<Rightarrow> string" where
  "clean_text_republika text =
     (case text of None \<Rightarrow> [] | Some t \<Rightarrow>
        if t = [] then [] else
        let t = sub_runs isspace '' '' t;
            t = sub_runs non_ascii '' '' t;
            t = filter (\<lambda>c. \<not> control_char c) t;
            t = filter kept_char t;
            t = sub_runs isspace '' '' t
        in strip t)"

text \<open>\<open>clean_text\<close> of mbg_news_pr.py: as in mbg_news_republika.py, without the last \<open>re.sub\<close>.\<close>

definition clean_text_pr :: "string option \<Rightarrow> string" where
  "clean_text_pr text =
     (case text of None \<Rightarrow> [] | Some t \<Rightarrow>
        if t = [] then [] else
        let t = sub_runs isspace '' '' t;
            t = sub_runs non_ascii '' '' t;
            t = filter (\<lambda>c. \<not> control_char c) t;
            t = filter kept_char t
        in strip t)"

text \<open>No two consecutive whitespace characters.\<close>

fun no_double_ws :: "string \<Rightarrow> bool" where
  "no_double_ws (a # b # s) = (\<not> (isspace a \<and> isspace b) \<and> no_double_ws (b # s))"
| "no_double_ws s = True"


text \<open>The text after the first four substitutions of \<open>clean_text\<close> in mbg_news_republika.py.\<close>

definition republika_body :: "string \<Rightarrow> string" where
  "republika_body t = filter kept_char (filter (\<lambda>c. \<not> control_char c)
       (sub_runs non_ascii '' '' (sub_runs isspace '' '' t)))"

section \<open>The standard library\<close>

text \<open>
  A naive \<open>datetime\<close> of the standard library, to the second.
\<close>

record datetime =
  year :: nat
  month :: nat
  day :: nat
  hour :: nat
  minute :: nat
  second :: nat

text \<open>
  The standard library, the zone database and the C library are not part of the repository.
  The model writes out what they do on the inputs that the theorems speak about; what they do
  elsewhere is read from the parameter \<open>lib\<close>, about which nothing is assumed:

  \<^item> \<open>upper_other c\<close> is \<open>c.upper()\<close> for a character \<open>c\<close> above 127 (it can be more than one
    character);
  \<^item> \<open>fromisoformat_other s\<close> is \<open>datetime.fromisoformat(s)\<close>, as the naive datetime and the
    offset from UTC in seconds, or \<open>None\<close> for ValueError, on the spellings that begin with a
    year and are not of the form \<open>YYYY-MM-DD?HH:MM:SS\<close> with an optional \<open>+HH:MM\<close> or \<open>-HH:MM\<close>;
  \<^item> \<open>utcoffset_before_1964 t\<close> is the offset of Asia/Jakarta from UTC, in seconds, at an instant
    \<open>t\<close> before the year 1964 (an instant is counted in seconds, as by \<open>to_seconds\<close> below);
  \<^item> \<open>year_below_1000 y\<close> is what \<open>strftime("%Y")\<close> prints for a year below 1000, which differs
    between platforms.
\<close>

record pylib =
  upper_other :: "char \<Rightarrow> string"
  fromisoformat_other :: "string \<Rightarrow> (datetime \<times> int option) option"
  utcoffset_before_1964 :: "int \<Rightarrow> int"
  year_below_1000 :: "nat \<Rightarrow> string"

text \<open>
  \<open>str.upper\<close> maps character by character: an ASCII small letter to its capital, any other
  ASCII character to itself.
\<close>

definition upper_char :: "char \<Rightarrow> char" where
  "upper_char c = (case map_of (zip ''abcdefghijklmnopqrstuvwxyz'' ''ABCDEFGHIJKLMNOPQRSTUVWXYZ'') c
                   of Some d \<Rightarrow> d | None \<Rightarrow> c)"

definition to_upper :: "pylib \<Rightarrow> char \<Rightarrow> string" where
  "to_upper lib c = (if (of_char c :: nat) < 128 then [upper_char c] else upper_other lib c)"

definition upper :: "pylib \<Rightarrow> string \<Rightarrow> string" where
  "upper lib s = concat (map (to_upper lib) s)"

text \<open>
  A library for evaluating the functions of the source on inputs that do not reach these
  parameters.
\<close>

definition lib0 :: pylib where
  "lib0 = \<lparr> upper_other = (\<lambda>c. [c]), fromisoformat_other = (\<lambda>s. None),
            utcoffset_before_1964 = (\<lambda>t. 0), year_below_1000 = (\<lambda>y. []) \<rparr>"

section \<open>sentiment_engine.py\<close>

definition CANDIDATE_TOPICS :: "string list" where
  "CANDIDATE_TOPICS = [''Anggaran'', ''Kualitas'', ''Distribusi'',
                       ''Kebijakan'', ''Sekolah'', ''Menu Sehat'', ''Lainnya'']"

text \<open>
  The three pipelines that \<open>load_models\<close> returns. A sentiment pipeline is a function from the
  text to the label and score of its first result (\<open>model(text)[0]\<close>, then \<open>["label"]\<close> and
  \<open>["score"]\<close>), or to the exception that the call or one of these accesses raises. The topic
  pipeline returns \<open>None\<close> when its result is falsy or has no key \<open>labels\<close>, and the list
  \<open>res_t["labels"]\<close> otherwise. Scores are floats; their type \<open>'f\<close> is left open, with
  \<open>round(float(x), 4)\<close> and the literal \<open>0.0\<close> as parameters of \<open>analyze_dual\<close>.
\<close>

record 'f models =
  model_roberta :: "string \<Rightarrow> py_exn + string \<times> 'f"
  model_indobert :: "string \<Rightarrow> py_exn + string \<times> 'f"
  model_topik :: "string \<Rightarrow> string list \<Rightarrow> py_exn + string list option"

definition label_map_indobert :: "string \<rightharpoonup> string" where
  "label_map_indobert = map_of
     [(''positif'', ''POSITIVE''), (''positive'', ''POSITIVE''),
      (''negatif'', ''NEGATIVE''), (''negative'', ''NEGATIVE''),
      (''netral'', ''NEUTRAL''), (''neutral'', ''NEUTRAL''),
      (''label_0'', ''NEGATIVE''), (''label_1'', ''NEUTRAL''), (''label_2'', ''POSITIVE'')]"

type_synonym 'f verdict = "string \<times> 'f \<times> string \<times> 'f \<times> string"

definition fail_safe :: "'f \<Rightarrow> 'f verdict" where
  "fail_safe zero = (''NEUTRAL'', zero, ''NEUTRAL'', zero, ''Lainnya'')"

text \<open>The body of the \<open>try\<close> block of \<open>analyze_dual\<close>.\<close>

definition analyze_try ::
  "pylib \<Rightarrow> 'f models \<Rightarrow> ('f \<Rightarrow> 'f) \<Rightarrow> string \<Rightarrow> string \<Rightarrow> py_exn + 'f verdict" where
  "analyze_try lib m round4 text judul =
     (let text = take 512 text; judul = take 200 judul in
      case model_roberta m text of Inl e \<Rightarrow> Inl e
      | Inr (l1, sc1) \<Rightarrow>
        let s1 = upper lib l1; c1 = round4 sc1 in
        (case model_indobert m text of Inl e \<Rightarrow> Inl e
         | Inr (l2, sc2) \<Rightarrow>
           let label_indobert = lower l2;
               s2 = (case label_map_indobert label_indobert of Some s \<Rightarrow> s | None \<Rightarrow> ''NEUTRAL'');
               c2 = round4 sc2 in
           (case model_topik m judul CANDIDATE_TOPICS of Inl e \<Rightarrow> Inl e
            | Inr None \<Rightarrow> Inr (s1, c1, s2, c2, ''Lainnya'')
            | Inr (Some []) \<Rightarrow> Inl IndexError
            | Inr (Some (t # _)) \<Rightarrow> Inr (s1, c1, s2, c2, t))))"

text \<open>
  \<open>analyze_dual\<close>: \<open>text\<close> is \<open>None\<close> for an absent (falsy, non-string) content. The call of
  \<open>load_models\<close> stands before the \<open>try\<close>, so its exception leaves the function.
\<close>

definition analyze_dual ::
  "pylib \<Rightarrow> (py_exn + 'f models) \<Rightarrow> ('f \<Rightarrow> 'f) \<Rightarrow> 'f \<Rightarrow> string option \<Rightarrow> string
     \<Rightarrow> py_exn + 'f verdict" where
  "analyze_dual lib load_models round4 zero text judul =
     (case text of None \<Rightarrow> Inr (fail_safe zero)
      | Some t \<Rightarrow>
        if t = [] \<or> length (strip t) < 15 then Inr (fail_safe zero)
        else (case load_models of Inl e \<Rightarrow> Inl e
              | Inr m \<Rightarrow>
                (case analyze_try lib m round4 t judul of
                   Inl e \<Rightarrow> Inr (fail_safe zero)
                 | Inr v \<Rightarrow> Inr v)))"

definition SENTIMENTS :: "string set" where
  "SENTIMENTS = {''POSITIVE'', ''NEGATIVE'', ''NEUTRAL''}"

text \<open>Pipelines that answer every text with fixed labels, for evaluating \<open>analyze_dual\<close>.\<close>

definition fixed_models :: "string \<Rightarrow> string \<Rightarrow> int models" where
  "fixed_models l1 l2 =
     \<lparr> model_roberta = (\<lambda>_. Inr (l1, 9)), model_indobert = (\<lambda>_. Inr (l2, 8)),
       model_topik = (\<lambda>_ ls. Inr (Some ls)) \<rparr>"

section \<open>Dates and times\<close>

text \<open>
  The calendar follows the library's own algorithms: \<open>_is_leap\<close>, \<open>_days_before_year\<close>,
  \<open>_days_before_month\<close>, \<open>_ymd2ord\<close> and \<open>_ord2ymd\<close> on proleptic Gregorian ordinals, day 1
  being 0001-01-01.
\<close>

definition is_leap :: "nat \<Rightarrow> bool" where
  "is_leap y = (y mod 4 = 0 \<and> (y mod 100 \<noteq> 0 \<or> y mod 400 = 0))"

definition DAYS_IN_MONTH :: "nat list" where
  "DAYS_IN_MONTH = [0, 31, 28, 31, 30, 31, 30, 31, 31, 30, 31, 30, 31]"

definition DAYS_BEFORE_MONTH :: "nat list" where
  "DAYS_BEFORE_MONTH = [0, 0, 31, 59, 90, 120, 151, 181, 212, 243, 273, 304, 334]"

definition days_in_month :: "nat \<Rightarrow> nat \<Rightarrow> nat" where
  "days_in_month y m = (if m = 2 \<and> is_leap y then 29 else DAYS_IN_MONTH ! m)"

definition days_before_year :: "nat \<Rightarrow> nat" where
  "days_before_year y = (let y = y - 1 in y * 365 + y div 4 - y div 100 + y div 400)"

definition days_before_month :: "nat \<Rightarrow> nat \<Rightarrow> nat" where
  "days_before_month y m = DAYS_BEFORE_MONTH ! m + (if m > 2 \<and> is_leap y then 1 else 0)"

definition ymd2ord :: "nat \<Rightarrow> nat \<Rightarrow> nat \<Rightarrow> nat" where
  "ymd2ord y m d = days_before_year y + days_before_month y m + d"

text \<open>
  \<open>_ord2ymd\<close>, in two parts: \<open>month_day\<close> is its end, which finds the month and the day from
  the day of the year (counted from 0) by the estimate \<open>(n + 50) >> 5\<close>.
\<close>

definition month_day :: "nat \<Rightarrow> bool \<Rightarrow> nat \<times> nat" where
  "month_day n leapyear =
     (let m = (n + 50) div 32;
          preceding = DAYS_BEFORE_MONTH ! m + (if m > 2 \<and> leapyear then 1 else 0)
      in if preceding > n
         then let m = m - 1;
                  preceding = preceding - (DAYS_IN_MONTH ! m + (if m = 2 \<and> leapyear then 1 else 0))
              in (m, n - preceding + 1)
         else (m, n - preceding + 1))"

definition ord2ymd :: "nat \<Rightarrow> nat \<times> nat \<times> nat" where
  "ord2ymd n0 =
     (let n = n0 - 1;
          n400 = n div 146097; n = n mod 146097;
          y = n400 * 400 + 1;
          n100 = n div 36524; n = n mod 36524;
          n4 = n div 1461; n = n mod 1461;
          n1 = n div 365; n = n mod 365;
          y = y + n100 * 100 + n4 * 4 + n1
      in if n1 = 4 \<or> n100 = 4 then (y - 1, 12, 31)
         else
           let leapyear = (n1 = 3 \<and> (n4 \<noteq> 24 \<or> n100 = 3))
           in (case month_day n leapyear of (m, d) \<Rightarrow> (y, m, d)))"

text \<open>
  The constructor \<open>datetime(y, m, d, H, M, S)\<close> raises ValueError for a field out of range.
\<close>

definition valid_datetime :: "datetime \<Rightarrow> bool" where
  "valid_datetime dt =
     (1 \<le> year dt \<and> year dt \<le> 9999 \<and> 1 \<le> month dt \<and> month dt \<le> 12
      \<and> 1 \<le> day dt \<and> day dt \<le> days_in_month (year dt) (month dt)
      \<and> hour dt < 24 \<and> minute dt < 60 \<and> second dt < 60)"

definition mk_datetime :: "nat \<Rightarrow> nat \<Rightarrow> nat \<Rightarrow> nat \<Rightarrow> nat \<Rightarrow> nat \<Rightarrow> py_exn + datetime" where
  "mk_datetime y m d H M S =
     (let dt = \<lparr> year = y, month = m, day = d, hour = H, minute = M, second = S \<rparr>
      in if valid_datetime dt then Inr dt else Inl ValueError)"

text \<open>
  \<open>dt.astimezone(WIB)\<close> for \<open>WIB = ZoneInfo("Asia/Jakarta")\<close>, on a datetime whose offset from
  UTC is \<open>off\<close> seconds: first the UTC time \<open>dt - off\<close>, then the local time, which is the UTC
  time plus the offset of the zone at that instant; either step raises OverflowError (here
  \<open>None\<close>) outside the years 1 to 9999. Asia/Jakarta is at UTC+07:00 from 1964 on; its earlier
  offsets are read from \<open>lib\<close>.
\<close>

definition to_seconds :: "datetime \<Rightarrow> int" where
  "to_seconds dt = int (ymd2ord (year dt) (month dt) (day dt)) * 86400
                   + int (hour dt) * 3600 + int (minute dt) * 60 + int (second dt)"

definition of_seconds :: "int \<Rightarrow> datetime option" where
  "of_seconds t =
     (let n = t div 86400; r = nat (t mod 86400) in
      if n < 1 \<or> 3652059 < n then None
      else (case ord2ymd (nat n) of (y, m, d) \<Rightarrow>
              Some \<lparr> year = y, month = m, day = d,
                     hour = r div 3600, minute = (r mod 3600) div 60, second = r mod 60 \<rparr>))"

definition Y1964 :: int where
  "Y1964 = to_seconds \<lparr> year = 1964, month = 1, day = 1, hour = 0, minute = 0, second = 0 \<rparr>"

definition WIB_utcoffset :: "pylib \<Rightarrow> int \<Rightarrow> int" where
  "WIB_utcoffset lib t = (if Y1964 \<le> t then 7 * 3600 else utcoffset_before_1964 lib t)"

definition astimezone_WIB :: "pylib \<Rightarrow> datetime \<Rightarrow> int \<Rightarrow> datetime option" where
  "astimezone_WIB lib dt off =
     (case of_seconds (to_seconds dt - off) of None \<Rightarrow> None
      | Some utc \<Rightarrow> of_seconds (to_seconds utc + WIB_utcoffset lib (to_seconds utc)))"

text \<open>
  Decimal digits: reading (\<open>int(s)\<close> on a string of ASCII digits) and writing with zero padding
  (\<open>%m\<close>, \<open>%d\<close>, \<open>%H\<close>, \<open>%M\<close>, \<open>%S\<close> and, for years from 1000 on, \<open>%Y\<close>). \<open>is_digit\<close> is \<open>\d\<close>
  and \<open>str.isdigit\<close> restricted to ASCII.
\<close>

definition is_digit :: "char \<Rightarrow> bool" where
  "is_digit c = (c \<in> set ''0123456789'')"

definition digit_val :: "char \<Rightarrow> nat option" where
  "digit_val c = map_of (zip ''0123456789'' [0, 1, 2, 3, 4, 5, 6, 7, 8, 9]) c"

definition digit_char :: "nat \<Rightarrow> char" where
  "digit_char n = ''0123456789'' ! n"

fun digits_val :: "nat \<Rightarrow> string \<Rightarrow> nat option" where
  "digits_val acc [] = Some acc"
| "digits_val acc (c # s) = (case digit_val c of None \<Rightarrow> None | Some d \<Rightarrow> digits_val (10 * acc + d) s)"

definition int_of :: "string \<Rightarrow> nat option" where
  "int_of s = (if s = [] then None else digits_val 0 s)"

definition dec2 :: "nat \<Rightarrow> string" where
  "dec2 n = [digit_char (n div 10 mod 10), digit_char (n mod 10)]"

definition dec4 :: "nat \<Rightarrow> string" where
  "dec4 n = dec2 (n div 100) @ dec2 (n mod 100)"

text \<open>
  \<open>dt.strftime("%Y-%m-%d %H:%M:%S")\<close>. A year from 1000 on is printed with its four digits;
  what is printed for an earlier year is read from \<open>lib\<close>.
\<close>

definition strftime :: "pylib \<Rightarrow> datetime \<Rightarrow> string" where
  "strftime lib dt =
     (if 1000 \<le> year dt then dec4 (year dt) else year_below_1000 lib (year dt))
     @ ''-'' @ dec2 (month dt) @ ''-'' @ dec2 (day dt) @ '' ''
     @ dec2 (hour dt) @ '':'' @ dec2 (minute dt) @ '':'' @ dec2 (second dt)"

text \<open>The characters of a canonical timestamp.\<close>

definition canonical_char :: "char \<Rightarrow> bool" where
  "canonical_char c = (c \<in> set ''0123456789-: '')"

text \<open>
  The timestamps that the theorems speak about: \<open>dt.isoformat(sep)\<close> of a naive datetime, and
  an offset designator \<open>+HH:MM\<close> or \<open>-HH:MM\<close> with its value in seconds.
\<close>

definition isoformat :: "datetime \<Rightarrow> char \<Rightarrow> string" where
  "isoformat dt sep = dec4 (year dt) @ ''-'' @ dec2 (month dt) @ ''-'' @ dec2 (day dt) @ [sep]
                      @ dec2 (hour dt) @ '':'' @ dec2 (minute dt) @ '':'' @ dec2 (second dt)"

definition utcoffset_suffix :: "bool \<Rightarrow> nat \<Rightarrow> nat \<Rightarrow> string" where
  "utcoffset_suffix west h m = (if west then ''-'' else ''+'') @ dec2 h @ '':'' @ dec2 m"

definition utcoffset_seconds :: "bool \<Rightarrow> nat \<Rightarrow> nat \<Rightarrow> int" where
  "utcoffset_seconds west h m = (if west then -1 else 1) * (int h * 3600 + int m * 60)"

text \<open>
  \<open>datetime.fromisoformat\<close>. The result is the naive datetime and the offset in seconds (\<open>None\<close>
  for a naive timestamp); \<open>None\<close> stands for ValueError. Three cases:

  \<^item> the second-resolution forms \<open>YYYY-MM-DD?HH:MM:SS\<close>, with any separator character,
    optionally followed by an offset \<open>+HH:MM\<close> or \<open>-HH:MM\<close> (\<open>seconds_form\<close>): the fields are read
    as decimal numbers and checked by the constructor; the offset is \<open>HH\<close> hours and \<open>MM\<close>
    minutes, whatever the two digits of \<open>MM\<close>, and must lie strictly between -24h and 24h. An
    hour field of 24 is left to \<open>lib\<close>;
  \<^item> a string shorter than 7 characters, or one that does not begin with four digits, is no
    timestamp in any spelling: ValueError;
  \<^item> every other string (date only, fractions of a second, basic format, week dates) is left
    to \<open>lib\<close>.
\<close>

definition parse_date :: "string \<Rightarrow> (nat \<times> nat \<times> nat) option" where
  "parse_date s =
     (if length s = 10 \<and> s ! 4 = CHR ''-'' \<and> s ! 7 = CHR ''-''
      then (case (int_of (take 4 s), int_of (take 2 (drop 5 s)), int_of (drop 8 s)) of
              (Some y, Some m, Some d) \<Rightarrow> Some (y, m, d) | _ \<Rightarrow> None)
      else None)"

definition parse_hms :: "string \<Rightarrow> (nat \<times> nat \<times> nat) option" where
  "parse_hms s =
     (if length s = 8 \<and> s ! 2 = CHR '':'' \<and> s ! 5 = CHR '':''
      then (case (int_of (take 2 s), int_of (take 2 (drop 3 s)), int_of (drop 6 s)) of
              (Some H, Some M, Some S) \<Rightarrow> Some (H, M, S) | _ \<Rightarrow> None)
      else None)"

definition parse_tz :: "string \<Rightarrow> int option option" where
  "parse_tz s =
     (if s = [] then Some None
      else if length s = 6 \<and> (s ! 0 = CHR ''+'' \<or> s ! 0 = CHR ''-'') \<and> s ! 3 = CHR '':''
      then (case (int_of (take 2 (drop 1 s)), int_of (drop 4 s)) of
              (Some H, Some M) \<Rightarrow>
                 if H * 3600 + M * 60 < 86400
                 then Some (Some ((if s ! 0 = CHR ''-'' then -1 else 1) * (int H * 3600 + int M * 60)))
                 else None
            | _ \<Rightarrow> None)
      else None)"

definition seconds_form :: "string \<Rightarrow> bool" where
  "seconds_form s =
     ((length s = 19 \<or> (length s = 25 \<and> (s ! 19 = CHR ''+'' \<or> s ! 19 = CHR ''-'') \<and> s ! 22 = CHR '':''))
      \<and> s ! 4 = CHR ''-'' \<and> s ! 7 = CHR ''-'' \<and> s ! 13 = CHR '':'' \<and> s ! 16 = CHR '':'')"

definition fromisoformat :: "pylib \<Rightarrow> string \<Rightarrow> (datetime \<times> int option) option" where
  "fromisoformat lib s =
     (if seconds_form s
      then (case (parse_date (take 10 s), parse_hms (take 8 (drop 11 s)), parse_tz (drop 19 s)) of
              (Some (y, m, d), Some (H, M, S), Some tz) \<Rightarrow>
                 if H = 24 then fromisoformat_other lib s
                 else (case mk_datetime y m d H M S of Inl e \<Rightarrow> None | Inr dt \<Rightarrow> Some (dt, tz))
            | _ \<Rightarrow> None)
      else if length s < 7 \<or> \<not> list_all is_digit (take 4 s) then None
      else fromisoformat_other lib s)"

text \<open>\<open>str.endswith\<close> and \<open>str.startswith\<close>.\<close>

definition endswith :: "string \<Rightarrow> string \<Rightarrow> bool" where
  "endswith s x = suffix x s"

definition startswith :: "string \<Rightarrow> string \<Rightarrow> bool" where
  "startswith s x = prefix x s"

text \<open>
  The part that the variants of \<open>iso_to_wib\<close> share: strip, replace a final \<open>Z\<close> by \<open>+00:00\<close>,
  parse, take a naive datetime as UTC, convert to WIB and format. \<open>None\<close> is the path through
  the \<open>except\<close> clause.
\<close>

definition iso_to_wib_core :: "pylib \<Rightarrow> string \<Rightarrow> string option" where
  "iso_to_wib_core lib iso_str =
     (let s = strip iso_str;
          s = (if endswith s ''Z'' then butlast s @ ''+00:00'' else s)
      in case fromisoformat lib s of None \<Rightarrow> None
         | Some (dt, tz) \<Rightarrow>
             (case astimezone_WIB lib dt (case tz of None \<Rightarrow> 0 | Some off \<Rightarrow> off) of
                None \<Rightarrow> None | Some w \<Rightarrow> Some (strftime lib w)))"

text \<open>
  \<open>iso_to_wib\<close> of mbg_news_detik.py and mbg_news_kompas.py (format
  \<open>"%Y-%m-%d %H:%M:%S WIB"\<close>), and of mbg_news_tribunnews.py (format \<open>"%Y-%m-%d %H:%M:%S"\<close>).
\<close>

definition iso_to_wib :: "pylib \<Rightarrow> string \<Rightarrow> string" where
  "iso_to_wib lib iso_str =
     (if iso_str = [] then []
      else case iso_to_wib_core lib iso_str of None \<Rightarrow> [] | Some c \<Rightarrow> c @ '' WIB'')"

definition iso_to_wib_tribun :: "pylib \<Rightarrow> string \<Rightarrow> string" where
  "iso_to_wib_tribun lib iso_str =
     (if iso_str = [] then []
      else case iso_to_wib_core lib iso_str of None \<Rightarrow> [] | Some c \<Rightarrow> c)"

section \<open>Regular expressions of the date parsers\<close>

text \<open>
  Each regular expression of the source is written out as a function that matches it at the
  head of the text; \<open>re.search\<close> tries the positions from left to right. \<open>\d\<close> and \<open>[A-Za-z]\<close>
  on code points below 256 are the ASCII digits and letters, also when case is ignored.
\<close>

definition is_alpha :: "char \<Rightarrow> bool" where
  "is_alpha c = (c \<in> set ''abcdefghijklmnopqrstuvwxyzABCDEFGHIJKLMNOPQRSTUVWXYZ'')"

text \<open>
  Pieces of a pattern, each applied at the head of the text and returning the matched part and
  the rest: \<open>\d{n}\<close>, \<open>\d{1,2}\<close> (greedy; what follows it in the patterns below is never a
  digit, so the longest run is the only candidate), a non-empty greedy run of a class, and a
  literal, case-sensitive or not.
\<close>

definition digits_exact :: "nat \<Rightarrow> string \<Rightarrow> (string \<times> string) option" where
  "digits_exact n s =
     (if n \<le> length s \<and> list_all is_digit (take n s) then Some (take n s, drop n s) else None)"

definition digits_1_2 :: "string \<Rightarrow> (string \<times> string) option" where
  "digits_1_2 s =
     (let d = takeWhile is_digit (take 2 s) in
      if d = [] then None else Some (d, drop (length d) s))"

definition run1 :: "(char \<Rightarrow> bool) \<Rightarrow> string \<Rightarrow> (string \<times> string) option" where
  "run1 P s = (if takeWhile P s = [] then None else Some (takeWhile P s, dropWhile P s))"

definition lit :: "string \<Rightarrow> string \<Rightarrow> string option" where
  "lit x s = (if prefix x s then Some (drop (length x) s) else None)"

definition lit_ci :: "string \<Rightarrow> string \<Rightarrow> string option" where
  "lit_ci x s = (if prefix (lower x) (lower (take (length x) s)) then Some (drop (length x) s) else None)"

text \<open>
  \<open>re.search\<close>: the match at the leftmost position that has one. \<open>lazy_any m\<close> is \<open>.*?\<close>
  followed by \<open>m\<close>: the shortest run of characters other than a line feed after which \<open>m\<close>
  matches.
\<close>

fun re_search :: "(string \<Rightarrow> 'a option) \<Rightarrow> string \<Rightarrow> 'a option" where
  "re_search m [] = m []"
| "re_search m (c # s) = (case m (c # s) of Some r \<Rightarrow> Some r | None \<Rightarrow> re_search m s)"

fun lazy_any :: "(string \<Rightarrow> 'a option) \<Rightarrow> string \<Rightarrow> 'a option" where
  "lazy_any m [] = m []"
| "lazy_any m (c # s) =
     (case m (c # s) of Some r \<Rightarrow> Some r
      | None \<Rightarrow> if c = CHR 0x0A then None else lazy_any m s)"

text \<open>
  mbg_news_kompas.py, \<open>parse_kompas_time_text_to_wib\<close>: the patterns
  \<open>(\d{2})/(\d{2})/(\d{4}),\s*(\d{2}):(\d{2})\s*WIB\<close> and, ignoring case,
  \<open>(\d{1,2})\s+([A-Za-z]+)\s+(\d{4}).*?(\d{2}):(\d{2})\s*WIB\<close>.
\<close>

definition kompas_numeric :: "string \<Rightarrow> (string \<times> string \<times> string \<times> string \<times> string) option" where
  "kompas_numeric s = do {
     (dd, s) \<leftarrow> digits_exact 2 s;
     s \<leftarrow> lit ''/'' s;
     (mm, s) \<leftarrow> digits_exact 2 s;
     s \<leftarrow> lit ''/'' s;
     (yyyy, s) \<leftarrow> digits_exact 4 s;
     s \<leftarrow> lit '','' s;
     (HH, s) \<leftarrow> digits_exact 2 (dropWhile isspace s);
     s \<leftarrow> lit '':'' s;
     (MM, s) \<leftarrow> digits_exact 2 s;
     _ \<leftarrow> lit ''WIB'' (dropWhile isspace s);
     Some (dd, mm, yyyy, HH, MM)
   }"

definition kompas_clock :: "string \<Rightarrow> (string \<times> string) option" where
  "kompas_clock s = do {
     (HH, s) \<leftarrow> digits_exact 2 s;
     s \<leftarrow> lit '':'' s;
     (MM, s) \<leftarrow> digits_exact 2 s;
     _ \<leftarrow> lit_ci ''WIB'' (dropWhile isspace s);
     Some (HH, MM)
   }"

definition kompas_long :: "string \<Rightarrow> (string \<times> string \<times> string \<times> string \<times> string) option" where
  "kompas_long s = do {
     (dd, s) \<leftarrow> digits_1_2 s;
     (_, s) \<leftarrow> run1 isspace s;
     (mon, s) \<leftarrow> run1 is_alpha s;
     (_, s) \<leftarrow> run1 isspace s;
     (yyyy, s) \<leftarrow> digits_exact 4 s;
     (HH, MM) \<leftarrow> lazy_any kompas_clock s;
     Some (dd, mon, yyyy, HH, MM)
   }"

definition bulan_map_kompas :: "string \<rightharpoonup> nat" where
  "bulan_map_kompas = map_of
     [(''januari'', 1), (''jan'', 1), (''februari'', 2), (''feb'', 2), (''maret'', 3), (''mar'', 3),
      (''april'', 4), (''apr'', 4), (''mei'', 5), (''juni'', 6), (''jun'', 6), (''juli'', 7),
      (''jul'', 7), (''agustus'', 8), (''agu'', 8), (''september'', 9), (''sep'', 9),
      (''oktober'', 10), (''okt'', 10), (''november'', 11), (''nov'', 11), (''desember'', 12),
      (''des'', 12)]"

text \<open>\<open>int(s)\<close> on a group that the pattern has matched as digits.\<close>

definition to_int :: "string \<Rightarrow> nat" where
  "to_int s = (case int_of s of Some n \<Rightarrow> n | None \<Rightarrow> 0)"

text \<open>
  The datetime constructor is not inside a \<open>try\<close>: its ValueError leaves the function.
\<close>

definition parse_kompas_time_text_to_wib :: "pylib \<Rightarrow> string \<Rightarrow> py_exn + string" where
  "parse_kompas_time_text_to_wib lib text =
     (if text = [] then Inr []
      else
        let s = clean_text (Some text) in
        case re_search kompas_numeric s of
          Some (dd, mm, yyyy, HH, MM) \<Rightarrow>
            (case mk_datetime (to_int yyyy) (to_int mm) (to_int dd) (to_int HH) (to_int MM) 0 of
               Inl e \<Rightarrow> Inl e | Inr dt \<Rightarrow> Inr (strftime lib dt))
        | None \<Rightarrow>
            (case re_search kompas_long s of
               Some (dd, mon, yyyy, HH, MM) \<Rightarrow>
                 (case bulan_map_kompas (lower mon) of
                    Some mon_num \<Rightarrow>
                      (case mk_datetime (to_int yyyy) mon_num (to_int dd) (to_int HH) (to_int MM) 0 of
                         Inl e \<Rightarrow> Inl e | Inr dt \<Rightarrow> Inr (strftime lib dt))
                  | None \<Rightarrow> Inr [])
             | None \<Rightarrow> Inr []))"


text \<open>
  mbg_news_republika.py, \<open>parse_indo_date\<close>: the patterns
  \<open>(\d{1,2})\s+(\w+)\s+(\d{4}),?\s+(\d{1,2}):(\d{2})\<close> and
  \<open>(\d{4})-(\d{2})-(\d{2})[T\s](\d{2}):(\d{2}):(\d{2})\<close>. The result is an aware datetime in the
  zone WIB, given here by its wall-clock fields, or \<open>None\<close>. The whole body is inside a \<open>try\<close>:
  a ValueError of the constructor ends the function with \<open>None\<close>. A first pattern that matches
  with an unknown month name leaves the decision to the second pattern.
\<close>

definition months_republika :: "string \<rightharpoonup> nat" where
  "months_republika = map_of
     [(''Januari'', 1), (''Februari'', 2), (''Maret'', 3), (''April'', 4), (''Mei'', 5),
      (''Juni'', 6), (''Juli'', 7), (''Agustus'', 8), (''September'', 9), (''Oktober'', 10),
      (''November'', 11), (''Desember'', 12)]"

definition republika_long :: "string \<Rightarrow> (string \<times> string \<times> string \<times> string \<times> string) option" where
  "republika_long s = do {
     (dd, s) \<leftarrow> digits_1_2 s;
     (_, s) \<leftarrow> run1 isspace s;
     (month_str, s) \<leftarrow> run1 word_char_u s;
     (_, s) \<leftarrow> run1 isspace s;
     (yr, s) \<leftarrow> digits_exact 4 s;
     (_, s) \<leftarrow> run1 isspace (case lit '','' s of Some r \<Rightarrow> r | None \<Rightarrow> s);
     (hr, s) \<leftarrow> digits_1_2 s;
     s \<leftarrow> lit '':'' s;
     (mi, s) \<leftarrow> digits_exact 2 s;
     Some (dd, month_str, yr, hr, mi)
   }"

definition republika_iso ::
  "string \<Rightarrow> (string \<times> string \<times> string \<times> string \<times> string \<times> string) option" where
  "republika_iso s = do {
     (yr, s) \<leftarrow> digits_exact 4 s;
     s \<leftarrow> lit ''-'' s;
     (mo, s) \<leftarrow> digits_exact 2 s;
     s \<leftarrow> lit ''-'' s;
     (dy, s) \<leftarrow> digits_exact 2 s;
     s \<leftarrow> (case s of [] \<Rightarrow> None | c # r \<Rightarrow> if c = CHR ''T'' \<or> isspace c then Some r else None);
     (hr, s) \<leftarrow> digits_exact 2 s;
     s \<leftarrow> lit '':'' s;
     (mi, s) \<leftarrow> digits_exact 2 s;
     s \<leftarrow> lit '':'' s;
     (se, s) \<leftarrow> digits_exact 2 s;
     Some (yr, mo, dy, hr, mi, se)
   }"

definition parse_indo_date_republika :: "string \<Rightarrow> datetime option" where
  "parse_indo_date_republika date_text =
     (if date_text = [] then None
      else
        case (case re_search republika_long date_text of
                Some (dd, month_str, yr, hr, mi) \<Rightarrow>
                  (case months_republika month_str of
                     Some mon \<Rightarrow> Some (mk_datetime (to_int yr) mon (to_int dd) (to_int hr) (to_int mi) 0)
                   | None \<Rightarrow> None)
              | None \<Rightarrow> None) of
          Some (Inr dt) \<Rightarrow> Some dt
        | Some (Inl e) \<Rightarrow> None
        | None \<Rightarrow>
            (case re_search republika_iso date_text of
               Some (yr, mo, dy, hr, mi, se) \<Rightarrow>
                 (case mk_datetime (to_int yr) (to_int mo) (to_int dy) (to_int hr) (to_int mi) (to_int se) of
                    Inr dt \<Rightarrow> Some dt
                  | Inl e \<Rightarrow> None)
             | None \<Rightarrow> None))"

text \<open>Two timestamps for evaluating the normalizers.\<close>

definition dt_zulu :: datetime where
  "dt_zulu = \<lparr> year = 2024, month = 3, day = 15, hour = 14, minute = 30, second = 0 \<rparr>"

definition dt_canonical :: datetime where
  "dt_canonical = \<lparr> year = 2025, month = 12, day = 17, hour = 9, minute = 46, second = 0 \<rparr>"

section \<open>Parsed documents\<close>

text \<open>\<open>sep.join(xs)\<close> and \<open>s.replace(old, new)\<close>.\<close>

fun join :: "string \<Rightarrow> string list \<Rightarrow> string" where
  "join sep [] = []"
| "join sep [x] = x"
| "join sep (x # y # r) = x @ sep @ join sep (y # r)"

fun replace :: "string \<Rightarrow> string \<Rightarrow> string \<Rightarrow> string" where
  "replace old new [] = []"
| "replace old new (c # s) =
     (if old \<noteq> [] \<and> prefix old (c # s)
      then new @ replace old new (drop (length old) (c # s))
      else c # replace old new s)"

text \<open>
  A parsed document, as BeautifulSoup hands it to the parsers: a text node, or an element
  with its tag name, its classes and its children. The text below a \<open>script\<close>, \<open>style\<close>,
  \<open>template\<close>, \<open>rt\<close> or \<open>rp\<close> element is kept in a string class of its own, named here by the
  innermost such element above it; \<open>texts\<close> lists the text nodes below a node in document
  order, each with that name, which is empty for ordinary text. \<open>strings\<close> of an element are
  the texts that \<open>get_text\<close> reads: those of the element's own class, so for an ordinary
  element the text inside scripts and style sheets is left out.
  \<open>get_text(" ", strip=True)\<close> joins the stripped, non-empty strings with a space.
  \<open>find_all(tag)\<close> lists the descendants with that tag in document order, and
  \<open>decompose\<close> on the result of a \<open>select\<close> removes the matching descendants.
\<close>

datatype node = Text string | Elem string "string list" "node list"

definition string_container :: "string \<Rightarrow> string \<Rightarrow> string" where
  "string_container t k =
     (if t \<in> set [''script'', ''style'', ''template'', ''rt'', ''rp''] then t else k)"

fun texts :: "string \<Rightarrow> node \<Rightarrow> (string \<times> string) list" where
  "texts k (Text s) = [(k, s)]"
| "texts k (Elem t cs kids) = concat (map (texts (string_container t k)) kids)"

fun strings :: "node \<Rightarrow> string list" where
  "strings (Text s) = [s]"
| "strings (Elem t cs kids) =
     map snd (filter (\<lambda>(k, s). k = string_container t []) (texts [] (Elem t cs kids)))"

definition stripped_strings :: "node \<Rightarrow> string list" where
  "stripped_strings n = filter (\<lambda>s. s \<noteq> []) (map strip (strings n))"

definition get_text_sp :: "node \<Rightarrow> string" where
  "get_text_sp n = join '' '' (stripped_strings n)"

fun is_tag :: "string \<Rightarrow> node \<Rightarrow> bool" where
  "is_tag t (Text s) = False"
| "is_tag t (Elem t' cs kids) = (t' = t)"

fun descendants :: "node \<Rightarrow> node list" where
  "descendants (Text s) = []"
| "descendants (Elem t cs kids) = concat (map (\<lambda>k. k # descendants k) kids)"

definition find_all :: "string \<Rightarrow> node \<Rightarrow> node list" where
  "find_all t n = filter (is_tag t) (descendants n)"

fun decompose :: "(string \<Rightarrow> string list \<Rightarrow> bool) \<Rightarrow> node \<Rightarrow> node" where
  "decompose bad (Text s) = Text s"
| "decompose bad (Elem t cs kids) =
     Elem t cs (map (decompose bad)
       (filter (\<lambda>k. case k of Text s \<Rightarrow> True | Elem t' cs' ks \<Rightarrow> \<not> bad t' cs') kids))"

text \<open>
  The section "Content" of \<open>parse_detail_page\<close> in mbg_news_detik.py, from the main container
  on: the paragraphs that are kept, joined with a blank line, and the text of the whole
  container when nothing is left.
\<close>

definition NL2 :: string where
  "NL2 = [CHR 0x0A, CHR 0x0A]"

definition detik_paras :: "node \<Rightarrow> string list" where
  "detik_paras container =
     filter (\<lambda>t. t \<noteq> [] \<and> t \<noteq> ''ADVERTISEMENT'' \<and> \<not> startswith (lower t) ''baca juga:'')
       (map (\<lambda>p. clean_text (Some (get_text_sp p))) (find_all ''p'' container))"

definition detik_content :: "node \<Rightarrow> string" where
  "detik_content container =
     (let content = strip (join NL2 (detik_paras container))
      in if content = [] then clean_text (Some (get_text_sp container)) else content)"

text \<open>
  The same section in mbg_news_tribunnews.py: the selector
  \<open>script, style, noscript, .ads, .baca-juga\<close> is removed first, a paragraph is dropped when its
  upper-case text contains one of three markers, and there is no fallback.
\<close>

definition tribun_bad :: "string \<Rightarrow> string list \<Rightarrow> bool" where
  "tribun_bad t cs = (t \<in> set [''script'', ''style'', ''noscript''] \<or> ''ads'' \<in> set cs \<or> ''baca-juga'' \<in> set cs)"

definition tribun_markers :: "string list" where
  "tribun_markers = [''ADVERTISEMENT'', ''IKLAN'', ''BACA JUGA'']"

definition tribun_paras :: "pylib \<Rightarrow> node \<Rightarrow> string list" where
  "tribun_paras lib container =
     filter (\<lambda>p. p \<noteq> [] \<and> \<not> list_ex (\<lambda>x. sublist x (upper lib p)) tribun_markers)
       (map (\<lambda>p. clean_text (Some (get_text_sp p))) (find_all ''p'' (decompose tribun_bad container)))"

definition tribun_content :: "pylib \<Rightarrow> node \<Rightarrow> string" where
  "tribun_content lib container = join NL2 (tribun_paras lib container)"

text \<open>
  What the detail parsers read from a page: the \<open>content\<close> attribute of the first \<open>meta\<close> tag
  with a given \<open>property\<close> or \<open>name\<close> (\<open>None\<close> when the tag is missing), the first \<open>h1\<close>, and
  the element that \<open>pick_main_container\<close> returns. The sites add what only they read. For
  detik, \<open>byline\<close> is the first group of the author pattern searched in the page text. For
  kompas, \<open>author_kompas\<close> is the result of \<open>extract_author_kompas\<close>, \<open>read_time\<close> the element
  \<open>.read__time\<close> and \<open>content_kompas\<close> the value that the section "Content" computes; these
  three are not modelled further. For tribunnews, \<open>penulis\<close> and \<open>time_span\<close> are the elements
  \<open>#penulis\<close> and \<open>time span\<close>.
\<close>

record page =
  meta_property :: "string \<rightharpoonup> string"
  meta_name :: "string \<rightharpoonup> string"
  h1 :: "node option"
  container :: node

record detik_page = page +
  byline :: "string option"

record kompas_page = page +
  author_kompas :: string
  read_time :: "node option"
  content_kompas :: string

record tribun_page = page +
  penulis :: "node option"
  time_span :: "node option"

text \<open>
  \<open>extract_meta\<close> of detik and kompas tries \<open>prop\<close>, then \<open>name\<close>; a tag with a non-empty
  \<open>content\<close> ends the search, also when the cleaned content is empty. The variant of
  tribunnews looks at one attribute only.
\<close>

definition meta_content :: "(string \<rightharpoonup> string) \<Rightarrow> string \<Rightarrow> string option" where
  "meta_content m k =
     (case m k of None \<Rightarrow> None | Some c \<Rightarrow> if c = [] then None else Some (clean_text (Some c)))"

definition extract_meta :: "'a page_scheme \<Rightarrow> string option \<Rightarrow> string option \<Rightarrow> string" where
  "extract_meta soup name prop =
     (case (case prop of None \<Rightarrow> None
            | Some p \<Rightarrow> if p = [] then None else meta_content (meta_property soup) p) of
        Some r \<Rightarrow> r
      | None \<Rightarrow>
        (case (case name of None \<Rightarrow> None
               | Some n \<Rightarrow> if n = [] then None else meta_content (meta_name soup) n) of
           Some r \<Rightarrow> r
         | None \<Rightarrow> []))"

definition extract_meta_tribun :: "'a page_scheme \<Rightarrow> string option \<Rightarrow> string option \<Rightarrow> string" where
  "extract_meta_tribun soup name prop =
     (case (case prop of Some p \<Rightarrow> if p = [] then None else Some p | None \<Rightarrow> None) of
        Some p \<Rightarrow> (case meta_content (meta_property soup) p of Some r \<Rightarrow> r | None \<Rightarrow> [])
      | None \<Rightarrow>
        (case name of None \<Rightarrow> []
         | Some n \<Rightarrow> (case meta_content (meta_name soup) n of Some r \<Rightarrow> r | None \<Rightarrow> [])))"

text \<open>\<open>a or b\<close> on strings.\<close>

definition py_or :: "string \<Rightarrow> string \<Rightarrow> string" where
  "py_or a b = (if a = [] then b else a)"

text \<open>The section "Judul" of parse_detail_page, the same in detik and kompas.\<close>

definition title_of :: "'a page_scheme \<Rightarrow> string" where
  "title_of soup =
     (let title = extract_meta soup None (Some ''og:title'') in
      if title = []
      then (case h1 soup of Some h \<Rightarrow> clean_text (Some (get_text_sp h)) | None \<Rightarrow> [])
      else title)"

text \<open>The dictionaries that the three \<open>parse_detail_page\<close> functions return.\<close>

record detik_detail =
  dd_url :: string
  dd_title_detail :: string
  dd_author :: string
  dd_published_time_iso :: string
  dd_content :: string

definition parse_detail_page :: "detik_page \<Rightarrow> string \<Rightarrow> detik_detail" where
  "parse_detail_page soup u =
     (let title = title_of soup;
          author = extract_meta soup (Some ''author'') None;
          author = (if author = []
                    then (case byline soup of Some g \<Rightarrow> clean_text (Some g) | None \<Rightarrow> author)
                    else author);
          published_iso =
            py_or (extract_meta soup None (Some ''article:published_time''))
              (py_or (extract_meta soup (Some ''publishdate'') None)
                     (extract_meta soup (Some ''date'') None));
          content = detik_content (container soup)
      in \<lparr> dd_url = u, dd_title_detail = title, dd_author = author,
            dd_published_time_iso = published_iso, dd_content = content \<rparr>)"

record kompas_detail =
  kd_url :: string
  kd_title_detail :: string
  kd_author :: string
  kd_published_time_iso :: string
  kd_published_time_text :: string
  kd_content :: string

definition parse_detail_page_kompas :: "kompas_page \<Rightarrow> string \<Rightarrow> kompas_detail" where
  "parse_detail_page_kompas soup u =
     (let title = title_of soup;
          author = author_kompas soup;
          published_iso =
            py_or (extract_meta soup None (Some ''article:published_time''))
              (py_or (extract_meta soup (Some ''content_PublishedDate'') None)
                 (py_or (extract_meta soup (Some ''publishdate'') None)
                        (extract_meta soup (Some ''date'') None)));
          published_text =
            (case read_time soup of Some t \<Rightarrow> clean_text (Some (get_text_sp t)) | None \<Rightarrow> []);
          content = content_kompas soup
      in \<lparr> kd_url = u, kd_title_detail = title, kd_author = author,
            kd_published_time_iso = published_iso, kd_published_time_text = published_text,
            kd_content = content \<rparr>)"

text \<open>
  \<open>parse_indo_date\<close> of mbg_news_tribunnews.py, with \<open>str.split()\<close>, \<open>str.split(":")\<close> and
  \<open>str.zfill(2)\<close>.
\<close>

definition months_tribun :: "string \<rightharpoonup> string" where
  "months_tribun = map_of
     [(''Januari'', ''01''), (''Februari'', ''02''), (''Maret'', ''03''), (''April'', ''04''),
      (''Mei'', ''05''), (''Juni'', ''06''), (''Juli'', ''07''), (''Agustus'', ''08''),
      (''September'', ''09''), (''Oktober'', ''10''), (''November'', ''11''), (''Desember'', ''12'')]"

fun split_from :: "string \<Rightarrow> string \<Rightarrow> string list" where
  "split_from cur [] = (if cur = [] then [] else [cur])"
| "split_from cur (c # s) =
     (if isspace c then (if cur = [] then split_from [] s else cur # split_from [] s)
      else split_from (cur @ [c]) s)"

definition split_ws :: "string \<Rightarrow> string list" where
  "split_ws s = split_from [] s"

fun split_on :: "char \<Rightarrow> string \<Rightarrow> string \<Rightarrow> string list" where
  "split_on d cur [] = [cur]"
| "split_on d cur (c # s) = (if c = d then cur # split_on d [] s else split_on d (cur @ [c]) s)"

definition zfill2 :: "string \<Rightarrow> string" where
  "zfill2 s = (if length s \<ge> 2 then s
               else if s = [] then ''00''
               else if hd s = CHR ''+'' \<or> hd s = CHR ''-'' then [hd s, CHR ''0''] 
               else CHR ''0'' # s)"

text \<open>\<open>re.sub(r"^[a-zA-Z]+,\s*", "", date_text)\<close>.\<close>

definition drop_day_name :: "string \<Rightarrow> string" where
  "drop_day_name s =
     (let r = dropWhile is_alpha s in
      if takeWhile is_alpha s \<noteq> [] \<and> r \<noteq> [] \<and> hd r = CHR '','' then dropWhile isspace (tl r) else s)"

definition parse_indo_date :: "string \<Rightarrow> string" where
  "parse_indo_date date_text =
     (if date_text = [] then []
      else
        let s = strip (replace ''WIB'' [] (drop_day_name date_text));
            parts = split_ws s
        in if length parts \<ge> 4
           then let day = zfill2 (parts ! 0);
                    mon = (case months_tribun (parts ! 1) of Some m \<Rightarrow> m | None \<Rightarrow> ''01'');
                    yr = parts ! 2;
                    time_val = parts ! 3;
                    time_val = (if length (split_on CHR '':'' [] time_val) = 2
                                then time_val @ '':00'' else time_val)
                in yr @ ''-'' @ mon @ ''-'' @ day @ '' '' @ time_val
           else [])"

record tribun_detail =
  td_url :: string
  td_title_detail :: string
  td_author :: string
  td_published_final :: string
  td_content :: string

definition parse_detail_page_tribun :: "pylib \<Rightarrow> tribun_page \<Rightarrow> string \<Rightarrow> tribun_detail" where
  "parse_detail_page_tribun lib soup u =
     (let title = py_or (extract_meta_tribun soup None (Some ''og:title''))
                    (case h1 soup of Some h \<Rightarrow> concat (stripped_strings h) | None \<Rightarrow> []);
          author = (case penulis soup of
                      Some el \<Rightarrow> clean_text (Some (replace ''Penulis:'' [] (concat (strings el))))
                    | None \<Rightarrow> []);
          author = (if author = [] then extract_meta_tribun soup (Some ''author'') None else author);
          published_final = (case time_span soup of
                               Some el \<Rightarrow> parse_indo_date (concat (stripped_strings el))
                             | None \<Rightarrow> []);
          published_final = (if published_final = []
                             then iso_to_wib_tribun lib
                                    (extract_meta_tribun soup None (Some ''article:published_time''))
                             else published_final);
          content = tribun_content lib (container soup)
      in \<lparr> td_url = u, td_title_detail = title, td_author = author,
            td_published_final = published_final, td_content = strip content \<rparr>)"

section \<open>Orchestrators: the detail phase\<close>

text \<open>
  A row of the list phase and a row of the output table. \<open>fromkeys\<close> is
  \<open>list(dict.fromkeys(xs))\<close>: the first occurrence of every element, in order.
\<close>

record list_row =
  published_wib :: string
  title_list :: string
  row_url :: string

record out_row =
  sumber :: string
  tanggal :: string
  judul :: string
  content :: string
  author :: string
  url :: string
  created_at :: string

fun fromkeys :: "'a list \<Rightarrow> 'a list \<Rightarrow> 'a list" where
  "fromkeys seen [] = []"
| "fromkeys seen (x # xs) =
     (if x \<in> set seen then fromkeys seen xs else x # fromkeys (x # seen) xs)"

text \<open>
  The fallback date of mbg_news_detik.py: the pattern
  \<open>\b(\d{1,2}) (\w+) (\d{4}) (\d{2}):(\d{2}) WIB\b\<close> searched in the date of the list row, with
  \<open>\w\<close> and \<open>\b\<close> as \<open>re\<close> has them on a \<open>str\<close>. \<open>re_search_b\<close> carries whether the previous
  character is a word character, for the leading \<open>\b\<close>.
\<close>

definition bulan_map_detik :: "string \<rightharpoonup> string" where
  "bulan_map_detik = map_of
     [(''Jan'', ''01''), (''Feb'', ''02''), (''Mar'', ''03''), (''Apr'', ''04''),
      (''Mei'', ''05''), (''Jun'', ''06''), (''Jul'', ''07''), (''Agu'', ''08''),
      (''Sep'', ''09''), (''Okt'', ''10''), (''Nov'', ''11''), (''Des'', ''12'')]"

definition detik_list_date ::
  "string \<Rightarrow> (string \<times> string \<times> string \<times> string \<times> string) option" where
  "detik_list_date s = do {
     (hari, s) \<leftarrow> digits_1_2 s;
     s \<leftarrow> lit '' '' s;
     (bln, s) \<leftarrow> run1 word_char_u s;
     s \<leftarrow> lit '' '' s;
     (thn, s) \<leftarrow> digits_exact 4 s;
     s \<leftarrow> lit '' '' s;
     (jam, s) \<leftarrow> digits_exact 2 s;
     s \<leftarrow> lit '':'' s;
     (menit, s) \<leftarrow> digits_exact 2 s;
     s \<leftarrow> lit '' WIB'' s;
     if s = [] \<or> \<not> word_char_u (hd s) then Some (hari, bln, thn, jam, menit) else None
   }"

fun re_search_b :: "(string \<Rightarrow> 'a option) \<Rightarrow> bool \<Rightarrow> string \<Rightarrow> 'a option" where
  "re_search_b m after_word [] = None"
| "re_search_b m after_word (c # s) =
     (case (if after_word then None else m (c # s)) of
        Some r \<Rightarrow> Some r
      | None \<Rightarrow> re_search_b m (word_char_u c) s)"

definition tanggal_from_list :: "pylib \<Rightarrow> string \<Rightarrow> py_exn + string" where
  "tanggal_from_list lib tgl_list =
     (case re_search_b detik_list_date False tgl_list of
        Some (hari, bln, thn, jam, menit) \<Rightarrow>
          let bln_num = (case bulan_map_detik (take 3 bln) of Some n \<Rightarrow> n | None \<Rightarrow> ''01'') in
          (case mk_datetime (to_int thn) (to_int bln_num) (to_int hari) (to_int jam) (to_int menit) 0 of
             Inl e \<Rightarrow> Inl e
           | Inr dt \<Rightarrow> Inr (strftime lib dt))
      | None \<Rightarrow> Inr tgl_list)"

text \<open>
  \<open>base\<close> is the first list row with the URL, or the empty dictionary; \<open>base.get(key, "")\<close>.
\<close>

definition base_published_wib :: "list_row option \<Rightarrow> string" where
  "base_published_wib base = (case base of None \<Rightarrow> [] | Some b \<Rightarrow> published_wib b)"

definition base_title_list :: "list_row option \<Rightarrow> string" where
  "base_title_list base = (case base of None \<Rightarrow> [] | Some b \<Rightarrow> title_list b)"

text \<open>
  mbg_news_detik.py. \<open>fetch_rendered\<close>, the browser, is a parameter: it returns the parsed page
  or raises. The local variable \<open>sources\<close> is part of the state: it is \<open>None\<close> until the
  assignment in the \<open>try\<close> block has run once. \<open>detik_try\<close> is the body of the \<open>try\<close> block
  and returns the row or the exception, with the binding of \<open>sources\<close> at that point.
  \<open>detik_details\<close> is the loop with its \<open>except\<close> clause, which reads \<open>sources\<close>: reading an
  unbound local variable raises UnboundLocalError, and that exception leaves the loop and the
  function.
\<close>

definition detik_try ::
  "pylib \<Rightarrow> (string \<Rightarrow> py_exn + detik_page) \<Rightarrow> list_row option \<Rightarrow> string \<Rightarrow> string \<Rightarrow> string option
     \<Rightarrow> (py_exn + out_row) \<times> string option" where
  "detik_try lib fetch_rendered base now u sources =
     (case fetch_rendered u of
        Inl e \<Rightarrow> (Inl e, sources)
      | Inr html \<Rightarrow>
          let d = parse_detail_page html u;
              sources = ''detik'';
              iso_wib = iso_to_wib lib (dd_published_time_iso d)
          in (case (if iso_wib \<noteq> [] then Inr (replace '' WIB'' [] iso_wib)
                    else tanggal_from_list lib (base_published_wib base)) of
                Inl e \<Rightarrow> (Inl e, Some sources)
              | Inr tgl \<Rightarrow>
                  (Inr \<lparr> sumber = sources, tanggal = tgl, judul = base_title_list base,
                         content = replace ''SCROLL TO CONTINUE WITH CONTENT'' [] (dd_content d),
                         author = dd_author d, url = u, created_at = now \<rparr>,
                   Some sources)))"

fun detik_details ::
  "pylib \<Rightarrow> (string \<Rightarrow> py_exn + detik_page) \<Rightarrow> list_row list \<Rightarrow> string \<Rightarrow> string list \<Rightarrow> string option
     \<Rightarrow> out_row list \<Rightarrow> py_exn + out_row list" where
  "detik_details lib fetch_rendered list_rows now [] sources out = Inr out"
| "detik_details lib fetch_rendered list_rows now (u # urls) sources out =
     (let base = find (\<lambda>x. row_url x = u) list_rows in
      case detik_try lib fetch_rendered base now u sources of
        (Inr row, sources) \<Rightarrow> detik_details lib fetch_rendered list_rows now urls sources (out @ [row])
      | (Inl e, sources) \<Rightarrow>
          (case sources of
             None \<Rightarrow> Inl UnboundLocalError
           | Some src \<Rightarrow>
               detik_details lib fetch_rendered list_rows now urls sources
                 (out @ [\<lparr> sumber = src, tanggal = base_published_wib base,
                           judul = base_title_list base, content = [], author = [],
                           url = u, created_at = now \<rparr>])))"

definition scrape_detik_details ::
  "pylib \<Rightarrow> (string \<Rightarrow> py_exn + detik_page) \<Rightarrow> list_row list \<Rightarrow> string \<Rightarrow> py_exn + out_row list" where
  "scrape_detik_details lib fetch_rendered list_rows now =
     detik_details lib fetch_rendered list_rows now (fromkeys [] (map row_url list_rows)) None []"

text \<open>mbg_news_kompas.py: \<open>sumber\<close> is bound before the loop.\<close>

definition kompas_try ::
  "pylib \<Rightarrow> (string \<Rightarrow> py_exn + kompas_page) \<Rightarrow> list_row option \<Rightarrow> string \<Rightarrow> string \<Rightarrow> py_exn + out_row" where
  "kompas_try lib fetch_rendered base now u =
     (case fetch_rendered u of
        Inl e \<Rightarrow> Inl e
      | Inr html \<Rightarrow>
          let d = parse_detail_page_kompas html u;
              iso_wib = iso_to_wib lib (kd_published_time_iso d)
          in (case (if iso_wib \<noteq> [] then Inr (replace '' WIB'' [] iso_wib)
                    else parse_kompas_time_text_to_wib lib (kd_published_time_text d)) of
                Inl e \<Rightarrow> Inl e
              | Inr tgl \<Rightarrow>
                  Inr \<lparr> sumber = ''kompas'', tanggal = tgl,
                        judul = py_or (kd_title_detail d) (base_title_list base),
                        content = replace ''KOMPAS.com'' []
                                    (replace ''SCROLL TO CONTINUE WITH CONTENT'' [] (kd_content d)),
                        author = kd_author d, url = u, created_at = now \<rparr>))"

fun kompas_details ::
  "pylib \<Rightarrow> (string \<Rightarrow> py_exn + kompas_page) \<Rightarrow> list_row list \<Rightarrow> string \<Rightarrow> string list \<Rightarrow> out_row list
     \<Rightarrow> out_row list" where
  "kompas_details lib fetch_rendered list_rows now [] out = out"
| "kompas_details lib fetch_rendered list_rows now (u # urls) out =
     (let base = find (\<lambda>x. row_url x = u) list_rows in
      case kompas_try lib fetch_rendered base now u of
        Inr row \<Rightarrow> kompas_details lib fetch_rendered list_rows now urls (out @ [row])
      | Inl e \<Rightarrow>
          kompas_details lib fetch_rendered list_rows now urls
            (out @ [\<lparr> sumber = ''kompas'', tanggal = [], judul = base_title_list base,
                      content = [], author = [], url = u, created_at = now \<rparr>]))"

definition scrape_kompas_details ::
  "pylib \<Rightarrow> (string \<Rightarrow> py_exn + kompas_page) \<Rightarrow> list_row list \<Rightarrow> string \<Rightarrow> out_row list" where
  "scrape_kompas_details lib fetch_rendered list_rows now =
     kompas_details lib fetch_rendered list_rows now (fromkeys [] (map row_url list_rows)) []"

text \<open>
  mbg_news_tribunnews.py: the \<open>except\<close> clause only prints, so a failed URL adds no row.
\<close>

definition tribun_try ::
  "pylib \<Rightarrow> (string \<Rightarrow> py_exn + tribun_page) \<Rightarrow> string \<Rightarrow> string \<Rightarrow> py_exn + out_row" where
  "tribun_try lib fetch now u =
     (case fetch u of
        Inl e \<Rightarrow> Inl e
      | Inr html \<Rightarrow>
          let d = parse_detail_page_tribun lib html u;
              judul_bersih = strip (replace ''Tribunnews.com'' [] (td_title_detail d));
              content_bersih = strip (replace ''Tribunnews.com'' [] (td_content d))
          in Inr \<lparr> sumber = ''tribunnews'', tanggal = td_published_final d, judul = judul_bersih,
                   content = content_bersih, author = td_author d, url = u, created_at = now \<rparr>)"

fun tribun_details ::
  "pylib \<Rightarrow> (string \<Rightarrow> py_exn + tribun_page) \<Rightarrow> string \<Rightarrow> string list \<Rightarrow> out_row list \<Rightarrow> out_row list" where
  "tribun_details lib fetch now [] out = out"
| "tribun_details lib fetch now (u # urls) out =
     (case tribun_try lib fetch now u of
        Inr row \<Rightarrow> tribun_details lib fetch now urls (out @ [row])
      | Inl e \<Rightarrow> tribun_details lib fetch now urls out)"

definition scrape_tribun_details ::
  "pylib \<Rightarrow> (string \<Rightarrow> py_exn + tribun_page) \<Rightarrow> string \<Rightarrow> string list \<Rightarrow> out_row list" where
  "scrape_tribun_details lib fetch now all_urls = tribun_details lib fetch now (fromkeys [] all_urls) []"

text \<open>Pages, list rows and browsers for evaluating the orchestrators.\<close>

definition article_page :: page where
  "article_page =
     \<lparr> meta_property = [''og:title'' \<mapsto> ''Dapur MBG diperluas''],
       meta_name = Map.empty,
       h1 = Some (Elem ''h1'' [] [Text ''Dapur MBG'']),
       container = Elem ''article'' [] [Elem ''p'' [] [Text ''Isi berita.'']] \<rparr>"

definition list_rows_1 :: "list_row list" where
  "list_rows_1 = [\<lparr> published_wib = ''Rabu, 17 Des 2025 02:03 WIB'', title_list = ''Judul dari daftar'',
                     row_url = ''https://news.detik.com/berita/d-8183382/dapur-mbg'' \<rparr>]"

text \<open>
  The row that an orchestrator adds for one URL: the row of the \<open>try\<close> block, or the row of
  the \<open>except\<close> clause.
\<close>

definition kompas_row ::
  "pylib \<Rightarrow> (string \<Rightarrow> py_exn + kompas_page) \<Rightarrow> list_row list \<Rightarrow> string \<Rightarrow> string \<Rightarrow> out_row" where
  "kompas_row lib f rows now u =
     (let base = find (\<lambda>x. row_url x = u) rows in
      case kompas_try lib f base now u of
        Inr row \<Rightarrow> row
      | Inl e \<Rightarrow> \<lparr> sumber = ''kompas'', tanggal = [], judul = base_title_list base,
                   content = [], author = [], url = u, created_at = now \<rparr>)"

definition detik_row ::
  "pylib \<Rightarrow> (string \<Rightarrow> py_exn + detik_page) \<Rightarrow> list_row list \<Rightarrow> string \<Rightarrow> string \<Rightarrow> out_row" where
  "detik_row lib h rows now u =
     (let base = find (\<lambda>x. row_url x = u) rows in
      case fst (detik_try lib h base now u None) of
        Inr row \<Rightarrow> row
      | Inl e \<Rightarrow> \<lparr> sumber = ''detik'', tanggal = base_published_wib base,
                   judul = base_title_list base, content = [], author = [],
                   url = u, created_at = now \<rparr>)"

definition now0 :: string where
  "now0 = ''2025-12-18 10:00:00''"

definition timeout_fetch :: "string \<Rightarrow> py_exn + 'a" where
  "timeout_fetch u = Inl (Raised ''Timeout 120000ms exceeded'')"

definition detik_page_1 :: detik_page where
  "detik_page_1 = page.extend article_page (detik_page.fields None)"

definition u1 :: string where
  "u1 = ''https://news.detik.com/berita/d-8183382/dapur-mbg''"

definition u2 :: string where
  "u2 = ''https://news.detik.com/berita/d-8183400/menu-mbg''"

definition list_rows_2 :: "list_row list" where
  "list_rows_2 = list_rows_1 @
     [\<lparr> published_wib = ''Rabu, 17 Des 2025 03:10 WIB'', title_list = ''Menu MBG di sekolah'',
        row_url = u2 \<rparr>]"

definition first_only :: "string \<Rightarrow> py_exn + detik_page" where
  "first_only u = (if u = u1 then Inr detik_page_1 else Inl (Raised ''Timeout 120000ms exceeded''))"

definition detik_rows_2 :: "out_row list" where
  "detik_rows_2 =
     [\<lparr> sumber = ''detik'', tanggal = ''2025-12-17 02:03:00'', judul = ''Judul dari daftar'',
        content = ''Isi berita.'', author = [], url = u1, created_at = now0 \<rparr>,
      \<lparr> sumber = ''detik'', tanggal = ''Rabu, 17 Des 2025 03:10 WIB'', judul = ''Menu MBG di sekolah'',
        content = [], author = [], url = u2, created_at = now0 \<rparr>]"

definition tribun_page_1 :: tribun_page where
  "tribun_page_1 = page.extend article_page (tribun_page.fields None None)"

definition t1 :: string where
  "t1 = ''https://www.tribunnews.com/nasional/1234567/dapur-mbg?page=all''"

definition t2 :: string where
  "t2 = ''https://www.tribunnews.com/nasional/1234568/menu-mbg?page=all''"

definition second_only :: "string \<Rightarrow> py_exn + tribun_page" where
  "second_only u = (if u = t2 then Inr tribun_page_1 else Inl (Raised ''Timeout 30000ms exceeded''))"








chapter \<open>Properties\<close>

section \<open>The classifier wrapper\<close>

lemma label_map_indobert_range: "label_map_indobert l = Some s \<Longrightarrow> s \<in> SENTIMENTS"
  by (auto simp: label_map_indobert_def SENTIMENTS_def split: if_splits)

lemma analyze_dual_long:
  "t \<noteq> [] \<Longrightarrow> 15 \<le> length (strip t) \<Longrightarrow>
   analyze_dual lib (Inr m) r z (Some t) title =
     (case analyze_try lib m r t title of Inl e \<Rightarrow> Inr (fail_safe z) | Inr v \<Rightarrow> Inr v)"
  by (simp add: analyze_dual_def)

lemma analyze_try_raises:
  "(\<exists>e. model_roberta m (take 512 t) = Inl e)
   \<or> (\<exists>e. model_indobert m (take 512 t) = Inl e)
   \<or> (\<exists>e. model_topik m (take 200 title) CANDIDATE_TOPICS = Inl e)
   \<or> model_topik m (take 200 title) CANDIDATE_TOPICS = Inr (Some [])
   \<Longrightarrow> \<exists>e. analyze_try lib m r t title = Inl e"
  by (auto simp: analyze_try_def Let_def split: sum.splits prod.splits option.splits list.splits)

lemma analyze_try_returns:
  "model_roberta m (take 512 t) = Inr (l1, sc1) \<Longrightarrow>
   model_indobert m (take 512 t) = Inr (l2, sc2) \<Longrightarrow>
   model_topik m (take 200 title) CANDIDATE_TOPICS = Inr ls \<Longrightarrow> ls \<noteq> Some [] \<Longrightarrow>
   analyze_try lib m r t title =
     Inr (upper lib l1, r sc1,
          (case label_map_indobert (lower l2) of Some s \<Rightarrow> s | None \<Rightarrow> ''NEUTRAL''), r sc2,
          (case ls of None \<Rightarrow> ''Lainnya'' | Some x \<Rightarrow> hd x))"
  by (auto simp: analyze_try_def Let_def split: sum.splits prod.splits option.splits list.splits)

text \<open>
  C9, as the code has it. Content that is absent, empty or shorter than 15 characters after
  stripping gives the fail-safe tuple, whatever \<open>load_models\<close> would do. For longer content:
  an exception of \<open>load_models\<close>, which is called before the \<open>try\<close> block, leaves
  \<open>analyze_dual\<close>; once the models are loaded, an exception of any of the three model calls, or
  an empty list of topic labels, gives the fail-safe tuple; and when the three calls return,
  the result is the raw label of the first model in upper case, whatever that label is, the
  two scores rounded, the first topic label (Lainnya without labels), and for the second model
  a label that is always one of POSITIVE, NEGATIVE, NEUTRAL: the entry of the table for the raw
  label in lower case, and NEUTRAL for a raw label that the table does not know.
\<close>

theorem analyze_dual_fail_safe:
  fixes m :: "'f models"
  shows
  "(text = None \<or> text = Some [] \<or> (\<exists>t. text = Some t \<and> length (strip t) < 15)
      \<longrightarrow> analyze_dual lib load r z text title = Inr (fail_safe z))
   \<and> (\<forall>t. text = Some t \<and> t \<noteq> [] \<and> 15 \<le> length (strip t) \<longrightarrow>
        (\<forall>e. analyze_dual lib (Inl e) r z text title = (Inl e :: py_exn + 'f verdict))
      \<and> ((\<exists>e. model_roberta m (take 512 t) = Inl e)
          \<or> (\<exists>e. model_indobert m (take 512 t) = Inl e)
          \<or> (\<exists>e. model_topik m (take 200 title) CANDIDATE_TOPICS = Inl e)
          \<or> model_topik m (take 200 title) CANDIDATE_TOPICS = Inr (Some [])
           \<longrightarrow> analyze_dual lib (Inr m) r z text title = Inr (fail_safe z))
      \<and> (\<forall>l1 sc1 l2 sc2 ls.
            model_roberta m (take 512 t) = Inr (l1, sc1)
          \<and> model_indobert m (take 512 t) = Inr (l2, sc2)
          \<and> model_topik m (take 200 title) CANDIDATE_TOPICS = Inr ls \<and> ls \<noteq> Some []
          \<longrightarrow> (\<exists>s2. analyze_dual lib (Inr m) r z text title
                       = Inr (upper lib l1, r sc1, s2, r sc2,
                              (case ls of None \<Rightarrow> ''Lainnya'' | Some x \<Rightarrow> hd x))
                  \<and> s2 \<in> SENTIMENTS
                  \<and> (lower l2 \<notin> dom label_map_indobert \<longrightarrow> s2 = ''NEUTRAL'')
                  \<and> (\<forall>s. label_map_indobert (lower l2) = Some s \<longrightarrow> s2 = s))))"
proof (intro conjI allI impI)
  assume "text = None \<or> text = Some [] \<or> (\<exists>t. text = Some t \<and> length (strip t) < 15)"
  then show "analyze_dual lib load r z text title = Inr (fail_safe z)"
    by (auto simp: analyze_dual_def)
next
  fix t e
  assume "text = Some t \<and> t \<noteq> [] \<and> 15 \<le> length (strip t)"
  then show "analyze_dual lib (Inl e) r z text title = (Inl e :: py_exn + 'f verdict)"
    by (simp add: analyze_dual_def)
next
  fix t
  assume long: "text = Some t \<and> t \<noteq> [] \<and> 15 \<le> length (strip t)"
    and "(\<exists>e. model_roberta m (take 512 t) = Inl e)
          \<or> (\<exists>e. model_indobert m (take 512 t) = Inl e)
          \<or> (\<exists>e. model_topik m (take 200 title) CANDIDATE_TOPICS = Inl e)
          \<or> model_topik m (take 200 title) CANDIDATE_TOPICS = Inr (Some [])"
  from analyze_try_raises [OF this(2)] obtain e where "analyze_try lib m r t title = Inl e" by blast
  with long show "analyze_dual lib (Inr m) r z text title = Inr (fail_safe z)"
    by (simp add: analyze_dual_long)
next
  fix t l1 sc1 l2 sc2 ls
  assume long: "text = Some t \<and> t \<noteq> [] \<and> 15 \<le> length (strip t)"
    and calls: "model_roberta m (take 512 t) = Inr (l1, sc1)
          \<and> model_indobert m (take 512 t) = Inr (l2, sc2)
          \<and> model_topik m (take 200 title) CANDIDATE_TOPICS = Inr ls \<and> ls \<noteq> Some []"
  let ?s2 = "case label_map_indobert (lower l2) of Some s \<Rightarrow> s | None \<Rightarrow> ''NEUTRAL''"
  from calls have "analyze_try lib m r t title =
     Inr (upper lib l1, r sc1, ?s2, r sc2, (case ls of None \<Rightarrow> ''Lainnya'' | Some x \<Rightarrow> hd x))"
    by (intro analyze_try_returns) simp_all
  with long have res: "analyze_dual lib (Inr m) r z text title =
     Inr (upper lib l1, r sc1, ?s2, r sc2, (case ls of None \<Rightarrow> ''Lainnya'' | Some x \<Rightarrow> hd x))"
    by (simp add: analyze_dual_long)
  have mem: "?s2 \<in> SENTIMENTS"
    by (cases "label_map_indobert (lower l2)") (auto simp: SENTIMENTS_def dest: label_map_indobert_range)
  have unk: "lower l2 \<notin> dom label_map_indobert \<longrightarrow> ?s2 = ''NEUTRAL''"
    by (auto simp: domIff)
  have known: "\<forall>s. label_map_indobert (lower l2) = Some s \<longrightarrow> ?s2 = s" by simp
  from res mem unk known
  show "\<exists>s2. analyze_dual lib (Inr m) r z text title
                       = Inr (upper lib l1, r sc1, s2, r sc2,
                              (case ls of None \<Rightarrow> ''Lainnya'' | Some x \<Rightarrow> hd x))
                  \<and> s2 \<in> SENTIMENTS
                  \<and> (lower l2 \<notin> dom label_map_indobert \<longrightarrow> s2 = ''NEUTRAL'')
                  \<and> (\<forall>s. label_map_indobert (lower l2) = Some s \<longrightarrow> s2 = s)"
    by blast
qed

text \<open>The four cases on fixed pipelines.\<close>

lemmas strip_defs = strip_def lstrip_def rstrip_def isspace_def

lemma long_text: "''Program makan bergizi gratis'' \<noteq> [] \<and> 15 \<le> length (strip ''Program makan bergizi gratis'')"
  by (simp add: strip_defs)

lemma upper_positive: "upper lib ''positive'' = ''POSITIVE''"
  by (simp add: upper_def to_upper_def upper_char_def)

lemma lower_mixed: "lower ''mixed'' \<notin> dom label_map_indobert"
  by (simp add: domIff label_map_indobert_def lower_def lower_char_def)

theorem analyze_dual_fail_safe_witness:
  "analyze_dual lib0 (Inr (fixed_models ''positive'' ''mixed'')) id 0 (Some ''MBG'') ''MBG''
     = Inr (fail_safe (0::int))
   \<and> analyze_dual lib0 (Inr ((fixed_models ''positive'' ''mixed'')
         \<lparr> model_topik := (\<lambda>_ _. Inl (Raised ''timeout'')) \<rparr>)) id 0
       (Some ''Program makan bergizi gratis'') ''MBG'' = Inr (fail_safe (0::int))
   \<and> analyze_dual lib0 (Inr (fixed_models ''positive'' ''mixed'')) id 0
       (Some ''Program makan bergizi gratis'') ''MBG''
     = Inr (''POSITIVE'', 9, ''NEUTRAL'', 8, ''Anggaran'')"
proof -
  let ?fm = "fixed_models ''positive'' ''mixed''"
  let ?m = "?fm \<lparr> model_topik := (\<lambda>_ _. Inl (Raised ''timeout'')) \<rparr>"
  let ?t = "''Program makan bergizi gratis''"
  have short: "length (strip ''MBG'') < 15" by (simp add: strip_defs)
  from analyze_dual_fail_safe [of "Some ''MBG''" lib0 "Inr ?fm" id "0::int" "''MBG''" ?fm] short
  have 1: "analyze_dual lib0 (Inr ?fm) id 0 (Some ''MBG'') ''MBG'' = Inr (fail_safe (0::int))"
    by blast
  have raised: "model_topik ?m (take 200 ''MBG'') CANDIDATE_TOPICS = Inl (Raised ''timeout'')"
    by (simp add: fixed_models_def)
  from analyze_dual_fail_safe [of "Some ?t" lib0 "Inr ?m" id "0::int" "''MBG''" ?m] long_text raised
  have 2: "analyze_dual lib0 (Inr ?m) id 0 (Some ?t) ''MBG'' = Inr (fail_safe (0::int))"
    by blast
  have calls: "model_roberta ?fm (take 512 ?t) = Inr (''positive'', 9)"
    "model_indobert ?fm (take 512 ?t) = Inr (''mixed'', 8)"
    "model_topik ?fm (take 200 ''MBG'') CANDIDATE_TOPICS = Inr (Some CANDIDATE_TOPICS)"
    "Some CANDIDATE_TOPICS \<noteq> Some []"
    by (simp_all add: fixed_models_def CANDIDATE_TOPICS_def)
  from analyze_dual_fail_safe [of "Some ?t" lib0 "Inr ?fm" id "0::int" "''MBG''" ?fm] long_text calls
       lower_mixed
  have "\<exists>s2. analyze_dual lib0 (Inr ?fm) id 0 (Some ?t) ''MBG''
                = Inr (upper lib0 ''positive'', id 9, s2, id 8, hd CANDIDATE_TOPICS)
              \<and> s2 = ''NEUTRAL''"
    by fastforce
  then have 3: "analyze_dual lib0 (Inr ?fm) id 0 (Some ?t) ''MBG''
     = Inr (''POSITIVE'', 9, ''NEUTRAL'', 8, ''Anggaran'')"
    by (auto simp: upper_positive CANDIDATE_TOPICS_def)
  from 1 2 3 show ?thesis by simp
qed

text \<open>
  The claim as stated fails in two ways. The first model's label is not mapped: a raw label
  outside positive, negative and neutral reaches the result in upper case. And an exception of
  \<open>load_models\<close> is not turned into the fail-safe tuple: it reaches the caller.
\<close>

theorem analyze_dual_first_label_counterexample:
  "analyze_dual lib0 (Inr (fixed_models ''label_0'' ''mixed'')) id 0
     (Some ''Program makan bergizi gratis'') ''MBG''
     = Inr (''LABEL_0'', 9, ''NEUTRAL'', 8, ''Anggaran'')
   \<and> ''LABEL_0'' \<notin> SENTIMENTS
   \<and> analyze_dual lib0 (Inl (Raised ''model download failed'')) id (0::int)
       (Some ''Program makan bergizi gratis'') ''MBG''
     = Inl (Raised ''model download failed'')"
  by (simp add: analyze_dual_def analyze_try_def fixed_models_def strip_def lstrip_def rstrip_def
      isspace_def upper_def to_upper_def lower_def upper_char_def lower_char_def label_map_indobert_def
      CANDIDATE_TOPICS_def SENTIMENTS_def)

section \<open>clean_text\<close>

lemma sub_runs_hd: "s \<noteq> [] \<Longrightarrow> \<not> P (hd s) \<Longrightarrow> sub_runs P rep s \<noteq> [] \<and> hd (sub_runs P rep s) = hd s"
  by (cases s) auto

lemma dropWhile_hd: "dropWhile P s \<noteq> [] \<Longrightarrow> \<not> P (hd (dropWhile P s))"
  by (simp add: hd_dropWhile)

lemma no_double_ws_Cons:
  "no_double_ws (a # s) = ((s \<noteq> [] \<longrightarrow> \<not> (isspace a \<and> isspace (hd s))) \<and> no_double_ws s)"
  by (cases s) auto

lemma sub_runs_no_double: "no_double_ws (sub_runs isspace '' '' s)"
proof (induction isspace "'' ''" s rule: sub_runs.induct)
  case 1
  show ?case by simp
next
  case (2 c s)
  show ?case
  proof (cases "isspace c")
    case True
    let ?r = "dropWhile isspace s"
    have "sub_runs isspace '' '' ?r \<noteq> [] \<Longrightarrow> \<not> isspace (hd (sub_runs isspace '' '' ?r))"
    proof -
      assume ne: "sub_runs isspace '' '' ?r \<noteq> []"
      then have "?r \<noteq> []" by (metis sub_runs.simps(1))
      then show ?thesis using sub_runs_hd [of ?r isspace "'' ''"] dropWhile_hd [of isspace s] by simp
    qed
    with True 2 show ?thesis by (simp add: no_double_ws_Cons)
  next
    case False
    with 2 show ?thesis by (simp add: no_double_ws_Cons)
  qed
qed

lemma sub_runs_set: "set (sub_runs P rep s) \<subseteq> set rep \<union> {c \<in> set s. \<not> P c}"
proof (induction P rep s rule: sub_runs.induct)
  case (1 P rep)
  show ?case by simp
next
  case (2 P rep c s)
  show ?case
  proof (cases "P c")
    case True
    with 2 have "set (sub_runs P rep (dropWhile P s)) \<subseteq> set rep \<union> {c \<in> set (dropWhile P s). \<not> P c}" by simp
    moreover have "set (dropWhile P s) \<subseteq> set s" by (rule set_dropWhileD [THEN subsetI]) 
    ultimately show ?thesis using True by auto
  next
    case False
    with 2 show ?thesis by auto
  qed
qed

lemma sub_runs_id: "(\<And>c. c \<in> set s \<Longrightarrow> \<not> P c) \<Longrightarrow> sub_runs P rep s = s"
  by (induction s) auto

lemma sub_runs_space_id:
  "no_double_ws s \<Longrightarrow> \<forall>c \<in> set s. isspace c \<longrightarrow> c = CHR '' '' \<Longrightarrow> sub_runs isspace '' '' s = s"
proof (induction s)
  case Nil
  show ?case by simp
next
  case (Cons c s)
  from Cons.prems(1) have nd: "no_double_ws s" by (simp add: no_double_ws_Cons)
  from Cons.prems(2) have sp: "\<forall>c \<in> set s. isspace c \<longrightarrow> c = CHR '' ''" by simp
  from Cons.IH [OF nd sp] have ih: "sub_runs isspace '' '' s = s" .
  show ?case
  proof (cases "isspace c")
    case True
    with Cons.prems(2) have c: "c = CHR '' ''" by simp
    have "dropWhile isspace s = s" using Cons.prems(1) True by (cases s) auto
    then have "sub_runs isspace '' '' (c # s) = '' '' @ sub_runs isspace '' '' s"
      using True by simp
    then show ?thesis by (simp only: ih c append.simps)
  next
    case False
    then show ?thesis by (simp add: ih)
  qed
qed

lemma no_double_ws_sublist: "no_double_ws s = (\<forall>a b. isspace a \<and> isspace b \<longrightarrow> \<not> sublist [a, b] s)"
proof (induction s rule: no_double_ws.induct)
  case (1 a b s)
  have "sublist [x, y] (a # b # s) = ((x = a \<and> y = b) \<or> sublist [x, y] (b # s))" for x y
    by (simp add: sublist_Cons_right [of _ a])
  with 1 show ?case by auto
qed (simp_all add: sublist_Cons_right)

lemma strip_sublist: "sublist (strip s) s"
proof -
  let ?t = "dropWhile isspace s"
  have "sublist (dropWhile isspace (rev ?t)) (rev ?t)" by (rule sublist_dropWhile)
  then have "sublist (rev (dropWhile isspace (rev ?t))) ?t" by (simp add: sublist_rev_left)
  moreover have "sublist ?t s" by (rule sublist_dropWhile)
  ultimately show ?thesis
    unfolding strip_def rstrip_def lstrip_def by (rule sublist_order.order.trans)
qed

lemma no_double_ws_strip: "no_double_ws s \<Longrightarrow> no_double_ws (strip s)"
  unfolding no_double_ws_sublist
  using strip_sublist [of s] sublist_order.order.trans by blast

lemma rstrip_hd:
  "t \<noteq> [] \<Longrightarrow> \<not> P (hd t) \<Longrightarrow>
   rev (dropWhile P (rev t)) \<noteq> [] \<and> hd (rev (dropWhile P (rev t))) = hd t"
proof (induction t rule: rev_induct)
  case Nil
  then show ?case by simp
next
  case (snoc x xs)
  show ?case
  proof (cases "P x")
    case True
    with snoc have "xs \<noteq> []" by (cases xs) auto
    with snoc True show ?thesis by simp
  next
    case False
    then show ?thesis by simp
  qed
qed

lemma rstrip_last:
  "rev (dropWhile P (rev t)) \<noteq> [] \<Longrightarrow> \<not> P (last (rev (dropWhile P (rev t))))"
proof -
  assume "rev (dropWhile P (rev t)) \<noteq> []"
  then have ne: "dropWhile P (rev t) \<noteq> []" by (simp only: rev_is_Nil_conv not_False_eq_True)
  then have "\<not> P (hd (dropWhile P (rev t)))" by (rule dropWhile_hd)
  then show ?thesis using ne by (simp add: last_rev)
qed

lemma rstrip_id: "s \<noteq> [] \<Longrightarrow> \<not> P (last s) \<Longrightarrow> rev (dropWhile P (rev s)) = s"
  by (induction s rule: rev_induct) auto

lemma strip_ends: "strip s \<noteq> [] \<Longrightarrow> \<not> isspace (hd (strip s)) \<and> \<not> isspace (last (strip s))"
proof -
  assume ne: "strip s \<noteq> []"
  let ?t = "dropWhile isspace s"
  have s: "strip s = rev (dropWhile isspace (rev ?t))" by (simp add: strip_def rstrip_def lstrip_def)
  have t: "?t \<noteq> []"
  proof
    assume "?t = []"
    then have "strip s = []" unfolding s by (simp only: rev.simps dropWhile.simps)
    with ne show False by simp
  qed
  then have ht: "\<not> isspace (hd ?t)" by (rule dropWhile_hd)
  from rstrip_hd [of ?t isspace] t ht have "hd (strip s) = hd ?t" unfolding s by simp
  moreover from rstrip_last [of isspace ?t] ne have "\<not> isspace (last (strip s))" unfolding s by simp
  ultimately show ?thesis using ht by simp
qed

lemma strip_id:
  assumes "s \<noteq> [] \<Longrightarrow> \<not> isspace (hd s) \<and> \<not> isspace (last s)"
  shows "strip s = s"
proof (cases "s = []")
  case True
  then show ?thesis by (simp add: strip_def rstrip_def lstrip_def)
next
  case False
  with assms have h: "\<not> isspace (hd s)" and l: "\<not> isspace (last s)" by auto
  have d1: "dropWhile isspace s = s" using False h by (cases s) auto
  have d2: "rev (dropWhile isspace (rev s)) = s" using rstrip_id [of s isspace] False l by blast
  have "strip s = rev (dropWhile isspace (rev (dropWhile isspace s)))"
    by (simp add: strip_def rstrip_def lstrip_def)
  also have "\<dots> = rev (dropWhile isspace (rev s))" by (simp only: d1)
  also have "\<dots> = s" by (rule d2)
  finally show ?thesis .
qed

lemma strip_set: "set (strip s) \<subseteq> set s"
  using strip_sublist [of s] by (rule set_mono_sublist)

lemma sub_runs_space_only:
  "\<forall>c \<in> set (sub_runs isspace '' '' s). isspace c \<longrightarrow> c = CHR '' ''"
  using sub_runs_set [of isspace "'' ''" s] by auto

lemma collapsed_strip_fixed:
  assumes r: "r = strip (sub_runs isspace '' '' t)"
  shows "no_double_ws r"
    and "r \<noteq> [] \<Longrightarrow> \<not> isspace (hd r) \<and> \<not> isspace (last r)"
    and "strip (sub_runs isspace '' '' r) = r"
proof -
  show nd: "no_double_ws r"
    unfolding r by (rule no_double_ws_strip) (rule sub_runs_no_double)
  show ends: "r \<noteq> [] \<Longrightarrow> \<not> isspace (hd r) \<and> \<not> isspace (last r)"
    unfolding r by (rule strip_ends)
  have "\<forall>c \<in> set r. isspace c \<longrightarrow> c = CHR '' ''"
    using sub_runs_space_only [of t] strip_set [of "sub_runs isspace '' '' t"] unfolding r by blast
  with nd have "sub_runs isspace '' '' r = r" by (rule sub_runs_space_id)
  moreover have "strip r = r" using ends by (rule strip_id)
  ultimately show "strip (sub_runs isspace '' '' r) = r" by simp
qed


lemma clean_text_None: "clean_text None = []"
  by (simp add: clean_text_def strip_def lstrip_def rstrip_def)

text \<open>The variant of mbg_news_republika.py has the same three properties.\<close>

lemma clean_text_republika_eq:
  "clean_text_republika (Some t) = (if t = [] then [] else strip (sub_runs isspace '' '' (republika_body t)))"
  by (simp add: clean_text_republika_def republika_body_def Let_def)

lemma space_facts: "isspace CHR '' ''" "\<not> non_ascii CHR '' ''" "\<not> control_char CHR '' ''" "kept_char CHR '' ''"
  by (simp_all add: isspace_def non_ascii_def control_char_def kept_char_def)

lemma republika_body_chars:
  "c \<in> set (republika_body t) \<Longrightarrow> \<not> non_ascii c \<and> \<not> control_char c \<and> kept_char c"
proof -
  assume "c \<in> set (republika_body t)"
  then have k: "kept_char c" and nc: "\<not> control_char c"
    and m: "c \<in> set (sub_runs non_ascii '' '' (sub_runs isspace '' '' t))"
    by (auto simp: republika_body_def)
  from m sub_runs_set [of non_ascii "'' ''" "sub_runs isspace '' '' t"]
  have "c = CHR '' '' \<or> \<not> non_ascii c" by auto
  with space_facts have "\<not> non_ascii c" by auto
  with k nc show ?thesis by simp
qed

lemma clean_text_republika_chars:
  "c \<in> set (clean_text_republika (Some t)) \<Longrightarrow> \<not> non_ascii c \<and> \<not> control_char c \<and> kept_char c"
proof -
  assume c: "c \<in> set (clean_text_republika (Some t))"
  then have ne: "t \<noteq> []" by (auto simp: clean_text_republika_eq split: if_splits)
  with c have "c \<in> set (strip (sub_runs isspace '' '' (republika_body t)))"
    by (simp add: clean_text_republika_eq)
  with strip_set have "c \<in> set (sub_runs isspace '' '' (republika_body t))" by blast
  with sub_runs_set [of isspace "'' ''" "republika_body t"]
  have "c = CHR '' '' \<or> c \<in> set (republika_body t)" by auto
  then show ?thesis using space_facts republika_body_chars by blast
qed

lemma clean_text_republika_normal:
  "no_double_ws (clean_text_republika x)"
  "clean_text_republika x \<noteq> [] \<Longrightarrow>
     \<not> isspace (hd (clean_text_republika x)) \<and> \<not> isspace (last (clean_text_republika x))"
  "clean_text_republika (Some (clean_text_republika x)) = clean_text_republika x"
proof -
  let ?r = "clean_text_republika x"
  have e: "strip [] = []" by (simp add: strip_def lstrip_def rstrip_def)
  have "\<exists>t. ?r = strip (sub_runs isspace '' '' t)"
  proof (cases x)
    case None
    then have "?r = strip (sub_runs isspace '' '' [])" by (simp add: clean_text_republika_def e)
    then show ?thesis by (rule exI)
  next
    case (Some t)
    show ?thesis
    proof (cases "t = []")
      case True
      with Some have "?r = strip (sub_runs isspace '' '' [])" by (simp add: clean_text_republika_eq e)
      then show ?thesis by (rule exI)
    next
      case False
      with Some have "?r = strip (sub_runs isspace '' '' (republika_body t))"
        by (simp add: clean_text_republika_eq)
      then show ?thesis by (rule exI)
    qed
  qed
  then obtain t where r: "?r = strip (sub_runs isspace '' '' t)" by blast
  show "no_double_ws ?r" by (rule collapsed_strip_fixed(1) [OF r])
  show "?r \<noteq> [] \<Longrightarrow> \<not> isspace (hd ?r) \<and> \<not> isspace (last ?r)"
    by (rule collapsed_strip_fixed(2) [OF r])
  have chars: "\<forall>c \<in> set ?r. \<not> non_ascii c \<and> \<not> control_char c \<and> kept_char c"
  proof (cases x)
    case None
    then show ?thesis by (simp add: clean_text_republika_def)
  next
    case (Some t)
    then show ?thesis using clean_text_republika_chars by blast
  qed
  show "clean_text_republika (Some ?r) = ?r"
  proof (cases "?r = []")
    case True
    then show ?thesis by (simp add: clean_text_republika_eq)
  next
    case False
    have 1: "sub_runs isspace '' '' ?r = ?r"
      using collapsed_strip_fixed(1) [OF r] sub_runs_space_only [of t] strip_set [of "sub_runs isspace '' '' t"]
      by (intro sub_runs_space_id) (auto simp: r)
    have 2: "sub_runs non_ascii '' '' ?r = ?r" using chars by (intro sub_runs_id) blast
    have 3: "filter (\<lambda>c. \<not> control_char c) ?r = ?r" using chars by (simp add: filter_id_conv)
    have 4: "filter kept_char ?r = ?r" using chars by (simp add: filter_id_conv)
    have "republika_body ?r = ?r" unfolding republika_body_def by (simp only: 1 2 3 4)
    then have "clean_text_republika (Some ?r) = strip (sub_runs isspace '' '' ?r)"
      using False by (simp only: clean_text_republika_eq if_False)
    also have "\<dots> = ?r" by (rule collapsed_strip_fixed(3) [OF r])
    finally show ?thesis .
  qed
qed

text \<open>
  C5. The variant of mbg_news_pr.py removes the character \<open>#\<close> after it has collapsed the
  whitespace and does not collapse again: on \<open>"a # b"\<close> it returns \<open>"a  b"\<close>, with two
  consecutive spaces, and a second application changes that result to \<open>"a b"\<close>.
\<close>

theorem clean_text_pr_double_space:
  "clean_text_pr (Some ''a # b'') = ''a  b''
   \<and> \<not> no_double_ws (clean_text_pr (Some ''a # b''))
   \<and> clean_text_pr (Some (clean_text_pr (Some ''a # b''))) = ''a b''"
  by code_simp

section \<open>The detail phase of the orchestrators\<close>

text \<open>Each loop adds its rows in the order of the URLs.\<close>

lemma kompas_try_url: "kompas_try lib f base now u = Inr row \<Longrightarrow> url row = u"
  by (auto simp: kompas_try_def Let_def split: sum.splits if_splits)

lemma kompas_row_url: "url (kompas_row lib f rows now u) = u"
  by (auto simp: kompas_row_def Let_def split: sum.splits dest: kompas_try_url)

lemma kompas_details_map:
  "kompas_details lib f rows now urls out = out @ map (kompas_row lib f rows now) urls"
  by (induction urls arbitrary: out) (auto simp: kompas_row_def Let_def split: sum.splits)

lemma tribun_try_url: "tribun_try lib g now u = Inr row \<Longrightarrow> url row = u"
  by (auto simp: tribun_try_def Let_def split: sum.splits)

lemma tribun_try_fails: "(\<exists>e. tribun_try lib g now u = Inl e) = (\<exists>e. g u = Inl e)"
  by (auto simp: tribun_try_def Let_def split: sum.splits)

lemma tribun_details_urls:
  "map url (tribun_details lib g now urls out) = map url out @ filter (\<lambda>u. \<forall>e. g u \<noteq> Inl e) urls"
proof (induction urls arbitrary: out)
  case Nil
  show ?case by simp
next
  case (Cons u urls)
  show ?case
  proof (cases "tribun_try lib g now u")
    case (Inl e)
    then have "\<exists>e. g u = Inl e" using tribun_try_fails [of lib g now u] by blast
    with Inl Cons show ?thesis by auto
  next
    case (Inr row)
    then have "\<forall>e. g u \<noteq> Inl e" using tribun_try_fails [of lib g now u] by auto
    with Inr Cons tribun_try_url [OF Inr] show ?thesis by auto
  qed
qed

lemma detik_try_fst: "fst (detik_try lib h base now u s) = fst (detik_try lib h base now u None)"
  by (auto simp: detik_try_def Let_def split: sum.splits)

lemma detik_try_snd:
  "s = None \<or> s = Some ''detik'' \<Longrightarrow> snd (detik_try lib h base now u s) = None \<or> snd (detik_try lib h base now u s) = Some ''detik''"
  by (auto simp: detik_try_def Let_def split: sum.splits)

lemma detik_try_url: "detik_try lib h base now u s = (Inr row, s') \<Longrightarrow> url row = u"
  by (auto simp: detik_try_def Let_def split: sum.splits if_splits)

lemma detik_row_url: "url (detik_row lib h rows now u) = u"
proof -
  let ?base = "find (\<lambda>x. row_url x = u) rows"
  show ?thesis
  proof (cases "fst (detik_try lib h ?base now u None)")
    case (Inl e)
    then show ?thesis by (simp add: detik_row_def Let_def)
  next
    case (Inr row)
    then have "detik_try lib h ?base now u None = (Inr row, snd (detik_try lib h ?base now u None))"
      by (metis prod.collapse)
    from detik_try_url [OF this] Inr show ?thesis by (simp add: detik_row_def Let_def)
  qed
qed

lemma detik_details_map:
  "s = None \<or> s = Some ''detik'' \<Longrightarrow> detik_details lib h rows now urls s out = Inr res \<Longrightarrow>
   res = out @ map (detik_row lib h rows now) urls"
proof (induction urls arbitrary: s out)
  case Nil
  then show ?case by simp
next
  case (Cons u urls)
  let ?base = "find (\<lambda>x. row_url x = u) rows"
  obtain r s' where t: "detik_try lib h ?base now u s = (r, s')" by (cases "detik_try lib h ?base now u s")
  have s': "s' = None \<or> s' = Some ''detik''"
    using detik_try_snd [OF Cons.prems(1), of lib h ?base now u] t by simp
  have r: "fst (detik_try lib h ?base now u None) = r"
    using detik_try_fst [of lib h ?base now u s] t by simp
  show ?case
  proof (cases r)
    case (Inr row)
    with Cons.prems(2) t
    have "detik_details lib h rows now urls s' (out @ [row]) = Inr res" by (simp add: Let_def)
    from Cons.IH [OF s' this] have "res = (out @ [row]) @ map (detik_row lib h rows now) urls" .
    moreover have "detik_row lib h rows now u = row" using r Inr by (simp add: detik_row_def Let_def)
    ultimately show ?thesis by simp
  next
    case (Inl e)
    show ?thesis
    proof (cases s')
      case None
      with Cons.prems(2) t Inl show ?thesis by (simp add: Let_def)
    next
      case (Some src)
      with s' have src: "src = ''detik''" by simp
      let ?row = "\<lparr> sumber = ''detik'', tanggal = base_published_wib ?base,
                   judul = base_title_list ?base, content = [], author = [],
                   url = u, created_at = now \<rparr>"
      from Cons.prems(2) t Inl Some src
      have "detik_details lib h rows now urls s' (out @ [?row]) = Inr res" by (simp add: Let_def)
      from Cons.IH [OF s' this] have "res = (out @ [?row]) @ map (detik_row lib h rows now) urls" .
      moreover have "detik_row lib h rows now u = ?row" using r Inl by (simp add: detik_row_def Let_def)
      ultimately show ?thesis by simp
    qed
  qed
qed

text \<open>The orchestrators on the pages and list rows defined above.\<close>

lemmas match_defs = digits_1_2_def digits_exact_def run1_def lit_def lit_ci_def is_digit_def
  is_alpha_def word_char_def word_char_u_def

lemma tanggal_from_list_1: "tanggal_from_list lib ''Rabu, 17 Des 2025 02:03 WIB'' = Inr ''2025-12-17 02:03:00''"
  by (simp add: tanggal_from_list_def detik_list_date_def match_defs bulan_map_detik_def to_int_def
      int_of_def digit_val_def mk_datetime_def valid_datetime_def days_in_month_def is_leap_def
      DAYS_IN_MONTH_def strftime_def dec2_def dec4_def digit_char_def Let_def)

lemma parse_detail_page_1:
  "parse_detail_page detik_page_1 u =
     \<lparr> dd_url = u, dd_title_detail = ''Dapur MBG diperluas'', dd_author = [],
       dd_published_time_iso = [], dd_content = ''Isi berita.'' \<rparr>"
  by (simp add: parse_detail_page_def detik_page_1_def article_page_def page.extend_def
      detik_page.fields_def title_of_def extract_meta_def meta_content_def py_or_def
      detik_content_def detik_paras_def find_all_def get_text_sp_def stripped_strings_def
      string_container_def clean_text_def strip_def lstrip_def rstrip_def isspace_def NL2_def startswith_def
      lower_def lower_char_def Let_def)

lemma detik_try_1:
  "h u1 = Inr detik_page_1 \<Longrightarrow> detik_try lib h (Some (hd list_rows_1)) now0 u1 s =
     (Inr \<lparr> sumber = ''detik'', tanggal = ''2025-12-17 02:03:00'', judul = ''Judul dari daftar'',
            content = ''Isi berita.'', author = [], url = u1, created_at = now0 \<rparr>, Some ''detik'')"
  by (simp add: detik_try_def parse_detail_page_1 iso_to_wib_def base_published_wib_def
      base_title_list_def list_rows_1_def tanggal_from_list_1 Let_def)

lemma detik_details_2:
  "detik_details lib first_only list_rows_2 now0 [u1, u2] None [] = Inr detik_rows_2"
proof -
  have f1: "find (\<lambda>x. row_url x = u1) list_rows_2 = Some (hd list_rows_1)"
    by (simp add: list_rows_2_def list_rows_1_def u1_def)
  have f2: "find (\<lambda>x. row_url x = u2) list_rows_2 = Some (last list_rows_2)"
    by (simp add: list_rows_2_def list_rows_1_def u2_def)
  have t2: "detik_try lib first_only b now0 u2 s = (Inl (Raised ''Timeout 120000ms exceeded''), s)" for b s
    by (simp add: detik_try_def first_only_def u1_def u2_def)
  have h1: "first_only u1 = Inr detik_page_1" by (simp add: first_only_def)
  have t1: "detik_try lib first_only (Some (hd list_rows_1)) now0 u1 None = (Inr (hd detik_rows_2), Some ''detik'')"
    using detik_try_1 [of first_only lib None] h1 by (simp add: detik_rows_2_def)
  have l: "last list_rows_2 = \<lparr> published_wib = ''Rabu, 17 Des 2025 03:10 WIB'',
             title_list = ''Menu MBG di sekolah'', row_url = u2 \<rparr>"
    by (simp add: list_rows_2_def)
  show ?thesis
    by (simp add: f1 f2 t1 t2 l detik_rows_2_def base_published_wib_def base_title_list_def)
qed

text \<open>
  C10. In mbg_news_detik.py the variable \<open>sources\<close> is assigned inside the \<open>try\<close> block, after
  the page has been fetched and parsed. When the fetch of the first URL raises, whatever the
  exception, the \<open>except\<close> clause reads \<open>sources\<close> unbound: the handler itself raises
  UnboundLocalError and the run ends without a table.
\<close>

theorem detik_handler_unbound_sources:
  "detik_details lib timeout_fetch list_rows now (u # urls) None [] = Inl UnboundLocalError"
  by (simp add: detik_try_def timeout_fetch_def Let_def)

lemma detik_first_fetch_fails:
  "scrape_detik_details lib timeout_fetch list_rows_1 now0 = Inl UnboundLocalError"
  by (simp add: scrape_detik_details_def list_rows_1_def detik_try_def timeout_fetch_def Let_def)

text \<open>
  The handlers of kompas and detik keep every URL. kompas: the detail phase returns one row per
  URL, in order; for a URL whose \<open>try\<close> block raises, the row keeps the URL, takes its title
  from the list row and has empty content and author. detik: whenever the detail phase returns
  its table, the same holds.
\<close>

lemma kompas_degraded_rows:
  "map url (kompas_details lib f rows now urls []) = urls
   \<and> (\<forall>i < length urls. \<forall>e.
         kompas_try lib f (find (\<lambda>x. row_url x = urls ! i) rows) now (urls ! i) = Inl e \<longrightarrow>
           (let r = kompas_details lib f rows now urls [] ! i in
            url r = urls ! i \<and> content r = [] \<and> author r = []
            \<and> judul r = base_title_list (find (\<lambda>x. row_url x = urls ! i) rows)))"
proof (intro conjI allI impI)
  show "map url (kompas_details lib f rows now urls []) = urls"
    by (simp add: kompas_details_map kompas_row_url comp_def)
next
  fix i e
  assume i: "i < length urls"
    and e: "kompas_try lib f (find (\<lambda>x. row_url x = urls ! i) rows) now (urls ! i) = Inl e"
  have "kompas_details lib f rows now urls [] ! i = kompas_row lib f rows now (urls ! i)"
    using i by (simp add: kompas_details_map)
  with e show "let r = kompas_details lib f rows now urls [] ! i in
            url r = urls ! i \<and> content r = [] \<and> author r = []
            \<and> judul r = base_title_list (find (\<lambda>x. row_url x = urls ! i) rows)"
    by (simp add: kompas_row_def Let_def)
qed

lemma detik_degraded_rows:
  assumes out: "detik_details lib h rows now urls None [] = Inr out"
  shows "map url out = urls"
    and "i < length urls \<Longrightarrow>
         fst (detik_try lib h (find (\<lambda>x. row_url x = urls ! i) rows) now (urls ! i) None) = Inl e \<Longrightarrow>
         url (out ! i) = urls ! i \<and> content (out ! i) = [] \<and> author (out ! i) = []
         \<and> judul (out ! i) = base_title_list (find (\<lambda>x. row_url x = urls ! i) rows)"
proof -
  from detik_details_map [OF _ out] have m: "out = map (detik_row lib h rows now) urls" by simp
  show "map url out = urls" by (simp add: m detik_row_url comp_def)
  assume i: "i < length urls"
    and e: "fst (detik_try lib h (find (\<lambda>x. row_url x = urls ! i) rows) now (urls ! i) None) = Inl e"
  have r: "out ! i = detik_row lib h rows now (urls ! i)" using i by (simp add: m)
  show "url (out ! i) = urls ! i \<and> content (out ! i) = [] \<and> author (out ! i) = []
         \<and> judul (out ! i) = base_title_list (find (\<lambda>x. row_url x = urls ! i) rows)"
    using e by (simp add: r detik_row_url) (simp add: detik_row_def Let_def)
qed

lemma kompas_timeout_row:
  "scrape_kompas_details lib timeout_fetch list_rows_1 now0 =
     [\<lparr> sumber = ''kompas'', tanggal = [], judul = ''Judul dari daftar'', content = [], author = [],
        url = u1, created_at = now0 \<rparr>]"
  by (simp add: scrape_kompas_details_def list_rows_1_def u1_def kompas_try_def timeout_fetch_def
      base_title_list_def)

lemmas text_defs = get_text_sp_def stripped_strings_def string_container_def clean_text_def
  strip_def lstrip_def rstrip_def isspace_def find_all_def

lemma sublist_eval:
  "sublist [] ys = True" "sublist (x # xs) [] = False"
  "sublist (x # xs) (y # ys) = (prefix (x # xs) (y # ys) \<or> sublist (x # xs) ys)"
  by (simp_all add: sublist_Cons_right)

lemma parse_detail_page_tribun_1:
  "parse_detail_page_tribun lib tribun_page_1 u =
     \<lparr> td_url = u, td_title_detail = ''Dapur MBG diperluas'', td_author = [],
       td_published_final = [], td_content = ''Isi berita.'' \<rparr>"
  by (simp add: parse_detail_page_tribun_def tribun_page_1_def article_page_def page.extend_def
      tribun_page.fields_def extract_meta_tribun_def meta_content_def py_or_def
      iso_to_wib_tribun_def tribun_content_def tribun_paras_def tribun_bad_def tribun_markers_def
      text_defs NL2_def upper_def to_upper_def upper_char_def sublist_eval Let_def)

text \<open>
  C1. In mbg_news_tribunnews.py the \<open>except\<close> clause of the detail loop only prints. In a
  run over two URLs where the fetch of the first one times out and the second one succeeds,
  the table holds the record of the second URL only: the loop goes on, but the failed URL has
  no record, degraded or not.
\<close>

theorem tribun_handler_drops_url:
  "scrape_tribun_details lib second_only now0 [t1, t2] =
     [\<lparr> sumber = ''tribunnews'', tanggal = [], judul = ''Dapur MBG diperluas'',
        content = ''Isi berita.'', author = [], url = t2, created_at = now0 \<rparr>]
   \<and> t1 \<notin> set (map url (scrape_tribun_details lib second_only now0 [t1, t2]))"
proof -
  have r: "replace ''Tribunnews.com'' [] ''Dapur MBG diperluas'' = ''Dapur MBG diperluas''"
    "replace ''Tribunnews.com'' [] ''Isi berita.'' = ''Isi berita.''"
    by simp_all
  have s: "strip ''Dapur MBG diperluas'' = ''Dapur MBG diperluas''" "strip ''Isi berita.'' = ''Isi berita.''"
    by (simp_all add: strip_def lstrip_def rstrip_def isspace_def)
  have "scrape_tribun_details lib second_only now0 [t1, t2] =
     [\<lparr> sumber = ''tribunnews'', tanggal = [], judul = ''Dapur MBG diperluas'',
        content = ''Isi berita.'', author = [], url = t2, created_at = now0 \<rparr>]"
    by (simp add: scrape_tribun_details_def tribun_try_def second_only_def t1_def t2_def
        parse_detail_page_tribun_1 r s)
  then show ?thesis by (simp add: t1_def t2_def)
qed

text \<open>
  C7. In mbg_news_detik.py the row of a successfully parsed article takes its title from the
  list row although the detail page has a title: the page below has the \<open>og:title\<close>
  "Dapur MBG diperluas", the list row the title "Judul dari daftar", and the emitted title is
  the one of the list row.
\<close>

theorem detik_title_from_list_only:
  "dd_title_detail (parse_detail_page detik_page_1 u1) = ''Dapur MBG diperluas''
   \<and> scrape_detik_details lib (\<lambda>u. Inr detik_page_1) list_rows_1 now0 =
       Inr [\<lparr> sumber = ''detik'', tanggal = ''2025-12-17 02:03:00'', judul = ''Judul dari daftar'',
              content = ''Isi berita.'', author = [], url = u1, created_at = now0 \<rparr>]"
proof -
  have f: "find (\<lambda>x. row_url x = u1) list_rows_1 = Some (hd list_rows_1)"
    by (simp add: list_rows_1_def u1_def)
  have k: "fromkeys [] (map row_url list_rows_1) = [u1]"
    by (simp add: list_rows_1_def u1_def)
  show ?thesis
    by (simp add: parse_detail_page_1 scrape_detik_details_def k f detik_try_1 [of "\<lambda>u. Inr detik_page_1"])
qed

text \<open>
  In general the \<open>try\<close> block of detik never uses the detail title, while that of kompas
  prefers it and falls back to the list title only when it is empty; the detail title itself
  is the \<open>og:title\<close> when that is not empty.
\<close>

lemma detik_try_judul:
  "detik_try lib h base now u s = (Inr row, s') \<Longrightarrow> judul row = base_title_list base"
proof -
  assume a: "detik_try lib h base now u s = (Inr row, s')"
  show ?thesis
  proof (cases "h u")
    case (Inl e)
    with a show ?thesis by (simp add: detik_try_def)
  next
    case (Inr html)
    let ?d = "parse_detail_page html u"
    let ?t = "if iso_to_wib lib (dd_published_time_iso ?d) \<noteq> []
              then Inr (replace '' WIB'' [] (iso_to_wib lib (dd_published_time_iso ?d)))
              else tanggal_from_list lib (base_published_wib base)"
    show ?thesis
    proof (cases ?t)
      case (Inl e)
      with a Inr show ?thesis by (simp add: detik_try_def Let_def)
    next
      case r: (Inr tgl)
      with a Inr show ?thesis by (auto simp: detik_try_def Let_def)
    qed
  qed
qed

lemma kompas_try_judul:
  "kompas_try lib f base now u = Inr row \<Longrightarrow>
   \<exists>html. f u = Inr html \<and>
     judul row = (if title_of html = [] then base_title_list base else title_of html)"
proof -
  assume a: "kompas_try lib f base now u = Inr row"
  show ?thesis
  proof (cases "f u")
    case (Inl e)
    with a show ?thesis by (simp add: kompas_try_def)
  next
    case (Inr html)
    let ?d = "parse_detail_page_kompas html u"
    have t: "kd_title_detail ?d = title_of html" by (simp add: parse_detail_page_kompas_def Let_def)
    let ?t = "if iso_to_wib lib (kd_published_time_iso ?d) \<noteq> []
              then Inr (replace '' WIB'' [] (iso_to_wib lib (kd_published_time_iso ?d)))
              else parse_kompas_time_text_to_wib lib (kd_published_time_text ?d)"
    show ?thesis
    proof (cases ?t)
      case (Inl e)
      with a Inr show ?thesis by (simp add: kompas_try_def Let_def)
    next
      case r: (Inr tgl)
      with a Inr have "judul row = py_or (kd_title_detail ?d) (base_title_list base)"
        by (auto simp: kompas_try_def Let_def)
      with t Inr show ?thesis by (simp add: py_or_def)
    qed
  qed
qed

lemma clean_text_empty: "clean_text (Some []) = []"
  by (simp add: clean_text_def strip_def lstrip_def rstrip_def)

lemma title_of_prefers_metadata:
  "meta_property soup ''og:title'' = Some c \<Longrightarrow> clean_text (Some c) \<noteq> [] \<Longrightarrow>
   title_of soup = clean_text (Some c)"
proof -
  assume m: "meta_property soup ''og:title'' = Some c" and ne: "clean_text (Some c) \<noteq> []"
  from ne have "c \<noteq> []" using clean_text_empty by auto
  with m ne show ?thesis by (simp add: title_of_def extract_meta_def meta_content_def)
qed

section \<open>The content of an article\<close>









































section \<open>Dates and times\<close>

text \<open>Writing a number in decimal and reading it back.\<close>

lemma digit_val_char: "k < 10 \<Longrightarrow> digit_val (digit_char k) = Some k"
proof -
  assume "k < 10"
  then consider "k = 0" | "k = 1" | "k = 2" | "k = 3" | "k = 4" | "k = 5" | "k = 6" | "k = 7"
    | "k = 8" | "k = 9" by atomize_elim arith
  then show ?thesis by cases (simp_all add: digit_val_def digit_char_def)
qed

lemma digit_char_not_space: "k < 10 \<Longrightarrow> \<not> isspace (digit_char k)"
proof -
  assume "k < 10"
  then consider "k = 0" | "k = 1" | "k = 2" | "k = 3" | "k = 4" | "k = 5" | "k = 6" | "k = 7"
    | "k = 8" | "k = 9" by atomize_elim arith
  then show ?thesis by cases (simp_all add: isspace_def digit_char_def)
qed

lemma digit_char_not_Z: "k < 10 \<Longrightarrow> digit_char k \<noteq> CHR ''Z''"
proof -
  assume "k < 10"
  then consider "k = 0" | "k = 1" | "k = 2" | "k = 3" | "k = 4" | "k = 5" | "k = 6" | "k = 7"
    | "k = 8" | "k = 9" by atomize_elim arith
  then show ?thesis by cases (simp_all add: digit_char_def)
qed

lemma int_of_2: "a < 10 \<Longrightarrow> b < 10 \<Longrightarrow> int_of [digit_char a, digit_char b] = Some (10 * a + b)"
  by (simp add: int_of_def digit_val_char)

lemma int_of_4:
  "a < 10 \<Longrightarrow> b < 10 \<Longrightarrow> c < 10 \<Longrightarrow> d < 10 \<Longrightarrow>
   int_of [digit_char a, digit_char b, digit_char c, digit_char d] = Some (1000 * a + 100 * b + 10 * c + d)"
  by (simp add: int_of_def digit_val_char)

lemma two_digits: "q < 100 \<Longrightarrow> 10 * (q div 10 mod 10) + q mod 10 = (q::nat)"
proof -
  assume "q < 100"
  then have "q div 10 < 10" by simp
  then have "q div 10 mod 10 = q div 10" by simp
  then show ?thesis by simp
qed

lemma int_of_dec2: "n < 100 \<Longrightarrow> int_of (dec2 n) = Some n"
proof -
  assume n: "n < 100"
  have "int_of (dec2 n) = Some (10 * (n div 10 mod 10) + n mod 10)"
    unfolding dec2_def by (rule int_of_2) simp_all
  with two_digits [OF n] show ?thesis by simp
qed

lemma int_of_dec4: "n < 10000 \<Longrightarrow> int_of (dec4 n) = Some n"
proof -
  assume n: "n < 10000"
  let ?q = "n div 100" and ?r = "n mod 100"
  have q: "?q < 100" using n by simp
  have r: "?r < 100" by simp
  have "int_of (dec4 n) = Some (1000 * (?q div 10 mod 10) + 100 * (?q mod 10)
                                 + 10 * (?r div 10 mod 10) + ?r mod 10)"
    unfolding dec4_def dec2_def append.simps by (rule int_of_4) simp_all
  also have "1000 * (?q div 10 mod 10) + 100 * (?q mod 10) + 10 * (?r div 10 mod 10) + ?r mod 10
             = 100 * (10 * (?q div 10 mod 10) + ?q mod 10) + (10 * (?r div 10 mod 10) + ?r mod 10)"
    by simp
  also have "\<dots> = 100 * ?q + ?r" by (simp only: two_digits [OF q] two_digits [OF r])
  also have "\<dots> = n" by simp
  finally show ?thesis .
qed

lemma length_dec2: "length (dec2 n) = 2" by (simp add: dec2_def)
lemma length_dec4: "length (dec4 n) = 4" by (simp add: dec4_def dec2_def)

text \<open>Parsing a timestamp that was written by \<open>isoformat\<close>.\<close>

lemma parse_date_dec:
  assumes "y < 10000" "m < 100" "d < 100"
  shows "parse_date (dec4 y @ CHR ''-'' # dec2 m @ CHR ''-'' # dec2 d) = Some (y, m, d)"
  using assms
  by (simp add: parse_date_def length_dec2 length_dec4 nth_append int_of_dec2 int_of_dec4)

lemma parse_hms_dec:
  assumes "H < 100" "M < 100" "S < 100"
  shows "parse_hms (dec2 H @ CHR '':'' # dec2 M @ CHR '':'' # dec2 S) = Some (H, M, S)"
  using assms
  by (simp add: parse_hms_def length_dec2 nth_append int_of_dec2)

lemma parse_tz_suffix:
  assumes "h < 24" "m < 60"
  shows "parse_tz (utcoffset_suffix west h m) = Some (Some (utcoffset_seconds west h m))"
  using assms
  by (simp add: parse_tz_def utcoffset_suffix_def utcoffset_seconds_def length_dec2 nth_append
      int_of_dec2)

lemma parse_tz_utc: "parse_tz ''+00:00'' = Some (Some 0)"
  by (simp add: parse_tz_def int_of_def digit_val_def)

lemma parse_tz_naive: "parse_tz [] = Some None"
  by (simp add: parse_tz_def)

lemma days_in_month_le: "days_in_month y m \<le> 31" if "m \<le> 12"
proof -
  from that consider "m = 0" | "m = 1" | "m = 2" | "m = 3" | "m = 4" | "m = 5" | "m = 6" | "m = 7"
    | "m = 8" | "m = 9" | "m = 10" | "m = 11" | "m = 12" by atomize_elim arith
  then show ?thesis by cases (simp_all add: days_in_month_def DAYS_IN_MONTH_def)
qed

lemma length_isoformat: "length (isoformat dt sep) = 19"
  by (simp add: isoformat_def length_dec2 length_dec4)

lemma nth_isoformat:
  "(isoformat dt sep @ t) ! 4 = CHR ''-''" "(isoformat dt sep @ t) ! 7 = CHR ''-''"
  "(isoformat dt sep @ t) ! 13 = CHR '':''" "(isoformat dt sep @ t) ! 16 = CHR '':''"
  by (simp_all add: isoformat_def dec4_def dec2_def)

lemma seconds_form_isoformat:
  assumes "t = [] \<or> (length t = 6 \<and> (t ! 0 = CHR ''+'' \<or> t ! 0 = CHR ''-'') \<and> t ! 3 = CHR '':'')"
  shows "seconds_form (isoformat dt sep @ t)"
proof -
  have n: "(isoformat dt sep @ t) ! 19 = t ! 0" "(isoformat dt sep @ t) ! 22 = t ! 3"
    by (simp_all add: nth_append length_isoformat)
  from assms show ?thesis
    unfolding seconds_form_def nth_isoformat n by (auto simp: length_isoformat)
qed

lemma fromisoformat_isoformat:
  assumes v: "valid_datetime dt" and t: "parse_tz t = Some tz"
    and f: "t = [] \<or> (length t = 6 \<and> (t ! 0 = CHR ''+'' \<or> t ! 0 = CHR ''-'') \<and> t ! 3 = CHR '':'')"
  shows "fromisoformat lib (isoformat dt sep @ t) = Some (dt, tz)"
proof -
  from v have H24: "hour dt \<noteq> 24" by (simp add: valid_datetime_def)
  from v have y: "year dt < 10000" and m: "month dt < 100" and H: "hour dt < 100"
    and M: "minute dt < 100" and S: "second dt < 100" and m12: "month dt \<le> 12"
    and d': "day dt \<le> days_in_month (year dt) (month dt)"
    by (simp_all add: valid_datetime_def)
  from d' days_in_month_le [OF m12, of "year dt"] have d: "day dt < 100" by simp
  have 1: "take 10 (isoformat dt sep @ t) = dec4 (year dt) @ ''-'' @ dec2 (month dt) @ ''-'' @ dec2 (day dt)"
    by (simp add: isoformat_def length_dec2 length_dec4)
  have 2: "take 8 (drop 11 (isoformat dt sep @ t)) = dec2 (hour dt) @ '':'' @ dec2 (minute dt) @ '':'' @ dec2 (second dt)"
    by (simp add: isoformat_def length_dec2 length_dec4)
  have 3: "drop 19 (isoformat dt sep @ t) = t"
    by (simp add: length_isoformat)
  have 4: "mk_datetime (year dt) (month dt) (day dt) (hour dt) (minute dt) (second dt) = Inr dt"
    using v by (cases dt) (simp add: mk_datetime_def)
  show ?thesis
    unfolding fromisoformat_def 1 2 3
    by (simp add: parse_date_dec [OF y m d] parse_hms_dec [OF H M S] t 4 H24
        seconds_form_isoformat [OF f])
qed

lemma suffix_form:
  "length (utcoffset_suffix west h m) = 6
   \<and> (utcoffset_suffix west h m ! 0 = CHR ''+'' \<or> utcoffset_suffix west h m ! 0 = CHR ''-'')
   \<and> utcoffset_suffix west h m ! 3 = CHR '':''"
  by (simp add: utcoffset_suffix_def dec2_def)

text \<open>The shared part of \<open>iso_to_wib\<close> on the three kinds of timestamps.\<close>

lemma hd_isoformat: "\<not> isspace (hd (isoformat dt sep @ t))"
  by (simp add: isoformat_def dec4_def dec2_def digit_char_not_space)

lemma isoformat_not_Nil: "isoformat dt sep \<noteq> []"
  by (simp add: isoformat_def dec4_def dec2_def)

lemma last_isoformat: "last (isoformat dt sep) = digit_char (second dt mod 10)"
  by (simp add: isoformat_def dec2_def)

lemma last_suffix: "last (utcoffset_suffix west h m) = digit_char (m mod 10)"
  by (simp add: utcoffset_suffix_def dec2_def)

lemma suffix_not_Nil: "utcoffset_suffix west h m \<noteq> []"
  by (simp add: utcoffset_suffix_def)

lemma not_endswith: "s \<noteq> [] \<Longrightarrow> last s \<noteq> c \<Longrightarrow> \<not> endswith s [c]"
  by (auto simp: endswith_def suffix_def)

lemma core_naive:
  assumes v: "valid_datetime dt"
  shows "iso_to_wib_core lib (isoformat dt sep) = map_option (strftime lib) (astimezone_WIB lib dt 0)"
proof -
  let ?s = "isoformat dt sep"
  have l: "\<not> isspace (last ?s)" "last ?s \<noteq> CHR ''Z''"
    by (simp_all add: last_isoformat digit_char_not_space digit_char_not_Z)
  have "strip ?s = ?s" using hd_isoformat [of dt sep "[]"] l(1) by (intro strip_id) simp
  moreover have "\<not> endswith ?s ''Z''"
    using l(2) isoformat_not_Nil [of dt sep] by (intro not_endswith) simp_all
  moreover have "fromisoformat lib ?s = Some (dt, None)"
    using fromisoformat_isoformat [OF v parse_tz_naive, of lib sep] by simp
  ultimately show ?thesis
    by (simp add: iso_to_wib_core_def Let_def split: option.splits)
qed

lemma core_zulu:
  assumes v: "valid_datetime dt"
  shows "iso_to_wib_core lib (isoformat dt sep @ ''Z'')
           = map_option (strftime lib) (astimezone_WIB lib dt 0)"
proof -
  let ?s = "isoformat dt sep @ ''Z''"
  have "\<not> isspace (last ?s)" by (simp add: isspace_def)
  then have "strip ?s = ?s" using hd_isoformat [of dt sep "''Z''"] by (intro strip_id) simp
  moreover have "endswith ?s ''Z''" by (simp add: endswith_def suffix_def)
  moreover have "butlast ?s = isoformat dt sep" by (simp add: butlast_append)
  moreover have "fromisoformat lib (isoformat dt sep @ ''+00:00'') = Some (dt, Some 0)"
    by (rule fromisoformat_isoformat [OF v parse_tz_utc]) simp
  ultimately show ?thesis
    by (simp add: iso_to_wib_core_def Let_def split: option.splits)
qed

lemma core_offset:
  assumes v: "valid_datetime dt" and h: "h < 24" and m: "m < 60"
  shows "iso_to_wib_core lib (isoformat dt sep @ utcoffset_suffix west h m)
           = map_option (strftime lib) (astimezone_WIB lib dt (utcoffset_seconds west h m))"
proof -
  let ?t = "utcoffset_suffix west h m"
  let ?s = "isoformat dt sep @ ?t"
  have last: "last ?s = digit_char (m mod 10)"
    using suffix_not_Nil [of west h m] by (simp add: last_suffix)
  have l: "\<not> isspace (last ?s)" "last ?s \<noteq> CHR ''Z''"
    unfolding last by (simp_all add: digit_char_not_space digit_char_not_Z)
  have "strip ?s = ?s" using hd_isoformat [of dt sep ?t] l(1) by (intro strip_id) simp
  moreover have "\<not> endswith ?s ''Z''"
    using l(2) by (intro not_endswith) (simp_all add: isoformat_not_Nil)
  moreover have "fromisoformat lib ?s = Some (dt, Some (utcoffset_seconds west h m))"
    using suffix_form [of west h m]
    by (intro fromisoformat_isoformat [OF v parse_tz_suffix [OF h m]]) simp
  ultimately show ?thesis
    by (simp add: iso_to_wib_core_def Let_def split: option.splits)
qed

lemma replace_WIB:
  "CHR ''W'' \<notin> set x \<Longrightarrow> replace '' WIB'' [] (x @ '' WIB'') = x"
proof (induction x)
  case Nil
  show ?case by simp
next
  case (Cons c x)
  have np: "prefix '' WIB'' (c # x @ '' WIB'') = False"
  proof (cases x)
    case Nil
    then show ?thesis by simp
  next
    case (Cons d y)
    with Cons.prems show ?thesis by auto
  qed
  have "replace '' WIB'' [] ((c # x) @ '' WIB'') = c # replace '' WIB'' [] (x @ '' WIB'')"
    by (subst append_Cons, subst replace.simps(2), simp only: np simp_thms if_False)
  with Cons show ?case by simp
qed

lemma canonical_digit: "k < 10 \<Longrightarrow> canonical_char (digit_char k)"
proof -
  assume "k < 10"
  then consider "k = 0" | "k = 1" | "k = 2" | "k = 3" | "k = 4" | "k = 5" | "k = 6" | "k = 7"
    | "k = 8" | "k = 9" by atomize_elim arith
  then show ?thesis by cases (simp_all add: digit_char_def canonical_char_def)
qed

lemma canonical_dec2: "list_all canonical_char (dec2 n)"
proof -
  have "canonical_char (digit_char (n div 10 mod 10))" "canonical_char (digit_char (n mod 10))"
    by (rule canonical_digit, simp)+
  then show ?thesis unfolding dec2_def by (simp only: list.pred_inject simp_thms)
qed

lemma strftime_isoformat: "1000 \<le> year w \<Longrightarrow> strftime lib w = isoformat w CHR '' ''"
  by (simp add: strftime_def isoformat_def)

lemma canonical_isoformat: "list_all canonical_char (isoformat w CHR '' '')"
  unfolding isoformat_def dec4_def
  by (simp only: list_all_append canonical_dec2 simp_thms) (simp add: canonical_char_def)

lemma canonical_strftime: "1000 \<le> year w \<Longrightarrow> list_all canonical_char (strftime lib w)"
  by (simp only: strftime_isoformat canonical_isoformat)

lemma strftime_no_W: "1000 \<le> year w \<Longrightarrow> CHR ''W'' \<notin> set (strftime lib w)"
  using canonical_strftime [of w lib] by (auto simp: list_all_iff canonical_char_def)

text \<open>The calendar: \<open>_ord2ymd\<close> inverts \<open>_ymd2ord\<close>.\<close>

lemma div_lin: "r < k \<Longrightarrow> (k * q + r) div k = (q::nat)"
  by simp

lemma mod_lin: "r < k \<Longrightarrow> (k * q + r) mod k = (r::nat)"
  by simp

lemma days_before_year_cycle:
  assumes b: "b \<le> 3" and c: "c \<le> 24" and e: "e \<le> 3"
  shows "days_before_year (400 * a + 100 * b + 4 * c + e + 1)
           = 146097 * a + 36524 * b + 1461 * c + 365 * e"
proof -
  let ?z = "400 * a + 100 * b + 4 * c + e"
  have z4: "?z div 4 = 100 * a + 25 * b + c"
  proof -
    have "?z = 4 * (100 * a + 25 * b + c) + e" by simp
    then show ?thesis using e by (simp only: div_lin)
  qed
  have z100: "?z div 100 = 4 * a + b"
  proof -
    have "?z = 100 * (4 * a + b) + (4 * c + e)" by simp
    moreover have "4 * c + e < 100" using c e by simp
    ultimately show ?thesis by (simp only: div_lin)
  qed
  have z400: "?z div 400 = a"
  proof -
    have "?z = 400 * a + (100 * b + 4 * c + e)" by simp
    moreover have "100 * b + 4 * c + e < 400" using b c e by simp
    ultimately show ?thesis by (simp only: div_lin)
  qed
  show ?thesis
    unfolding days_before_year_def Let_def
    by (simp only: add_diff_cancel_right' z4 z100 z400) simp
qed


lemma mod_zero_top: "0 < x \<Longrightarrow> x \<le> k \<Longrightarrow> (x mod k = 0) = (x = (k::nat))"
  by (cases "x = k") auto

lemma is_leap_cycle:
  assumes b: "b \<le> 3" and c: "c \<le> 24" and e: "e \<le> 3"
  shows "is_leap (400 * a + 100 * b + 4 * c + e + 1) = (e = 3 \<and> (c \<noteq> 24 \<or> b = 3))"
proof -
  let ?Y = "400 * a + 100 * b + 4 * c + e + 1"
  have m4: "?Y mod 4 = (e + 1) mod 4"
  proof -
    have "?Y = 4 * (100 * a + 25 * b + c) + (e + 1)" by simp
    then show ?thesis by (metis mod_mult_self4)
  qed
  have m100: "?Y mod 100 = (4 * c + e + 1) mod 100"
  proof -
    have "?Y = 100 * (4 * a + b) + (4 * c + e + 1)" by simp
    then show ?thesis by (metis mod_mult_self4)
  qed
  have m400: "?Y mod 400 = (100 * b + 4 * c + e + 1) mod 400"
  proof -
    have "?Y = 400 * a + (100 * b + 4 * c + e + 1)" by simp
    then show ?thesis by (metis mod_mult_self4)
  qed
  have 1: "((e + 1) mod 4 = 0) = (e = 3)" using e by presburger
  have 2: "((4 * c + e + 1) mod 100 = 0) = (4 * c + e + 1 = 100)"
    using c e by (intro mod_zero_top) simp_all
  have 3: "((100 * b + 4 * c + e + 1) mod 400 = 0) = (100 * b + 4 * c + e + 1 = 400)"
    using b c e by (intro mod_zero_top) simp_all
  show ?thesis
    unfolding is_leap_def m4 m100 m400 1 2 3 using b c e by auto
qed


lemma month_day_ok:
  assumes n: "n < 365 + (if L then 1 else 0)" and md: "month_day n L = (m, d)"
  shows "DAYS_BEFORE_MONTH ! m + (if m > 2 \<and> L then 1 else 0) + d = n + 1
         \<and> 1 \<le> m \<and> m \<le> 12 \<and> 1 \<le> d \<and> d \<le> DAYS_IN_MONTH ! m + (if m = 2 \<and> L then 1 else 0)"
proof -
  define k where "k = (n + 50) div 32"
  have lo: "32 * k \<le> n + 50" and hi: "n + 50 < 32 * k + 32"
    unfolding k_def by presburger+
  from n lo hi have "1 \<le> k" "k \<le> 12" by (auto split: if_splits)
  then consider "k = 1" | "k = 2" | "k = 3" | "k = 4" | "k = 5" | "k = 6" | "k = 7"
    | "k = 8" | "k = 9" | "k = 10" | "k = 11" | "k = 12" by atomize_elim arith
  then show ?thesis
  proof cases
    case 1 with md lo hi n show ?thesis
      by (auto simp: month_day_def k_def [symmetric] Let_def DAYS_BEFORE_MONTH_def DAYS_IN_MONTH_def split: if_splits)
  next
    case 2 with md lo hi n show ?thesis
      by (auto simp: month_day_def k_def [symmetric] Let_def DAYS_BEFORE_MONTH_def DAYS_IN_MONTH_def split: if_splits)
  next
    case 3 with md lo hi n show ?thesis
      by (auto simp: month_day_def k_def [symmetric] Let_def DAYS_BEFORE_MONTH_def DAYS_IN_MONTH_def split: if_splits)
  next
    case 4 with md lo hi n show ?thesis
      by (auto simp: month_day_def k_def [symmetric] Let_def DAYS_BEFORE_MONTH_def DAYS_IN_MONTH_def split: if_splits)
  next
    case 5 with md lo hi n show ?thesis
      by (auto simp: month_day_def k_def [symmetric] Let_def DAYS_BEFORE_MONTH_def DAYS_IN_MONTH_def split: if_splits)
  next
    case 6 with md lo hi n show ?thesis
      by (auto simp: month_day_def k_def [symmetric] Let_def DAYS_BEFORE_MONTH_def DAYS_IN_MONTH_def split: if_splits)
  next
    case 7 with md lo hi n show ?thesis
      by (auto simp: month_day_def k_def [symmetric] Let_def DAYS_BEFORE_MONTH_def DAYS_IN_MONTH_def split: if_splits)
  next
    case 8 with md lo hi n show ?thesis
      by (auto simp: month_day_def k_def [symmetric] Let_def DAYS_BEFORE_MONTH_def DAYS_IN_MONTH_def split: if_splits)
  next
    case 9 with md lo hi n show ?thesis
      by (auto simp: month_day_def k_def [symmetric] Let_def DAYS_BEFORE_MONTH_def DAYS_IN_MONTH_def split: if_splits)
  next
    case 10 with md lo hi n show ?thesis
      by (auto simp: month_day_def k_def [symmetric] Let_def DAYS_BEFORE_MONTH_def DAYS_IN_MONTH_def split: if_splits)
  next
    case 11 with md lo hi n show ?thesis
      by (auto simp: month_day_def k_def [symmetric] Let_def DAYS_BEFORE_MONTH_def DAYS_IN_MONTH_def split: if_splits)
  next
    case 12 with md lo hi n show ?thesis
      by (auto simp: month_day_def k_def [symmetric] Let_def DAYS_BEFORE_MONTH_def DAYS_IN_MONTH_def split: if_splits)
  qed
qed

lemma days_before_year_400: "days_before_year (400 * a + 400) = 146097 * a + 145731"
proof -
  have "days_before_year (400 * a + 100 * 3 + 4 * 24 + 3 + 1)
          = 146097 * a + 36524 * 3 + 1461 * 24 + 365 * 3"
    by (rule days_before_year_cycle) simp_all
  then show ?thesis by (simp add: ac_simps)
qed

lemma is_leap_400: "is_leap (400 * a + 400)"
proof -
  have "is_leap (400 * a + 100 * 3 + 4 * 24 + 3 + 1) = (3 = (3::nat) \<and> ((24::nat) \<noteq> 24 \<or> (3::nat) = 3))"
    by (rule is_leap_cycle) simp_all
  then show ?thesis by (simp add: ac_simps)
qed

lemma ord2ymd_ok:
  assumes n0: "1 \<le> n0" and r: "ord2ymd n0 = (y, m, d)"
  shows "ymd2ord y m d = n0 \<and> 1 \<le> y \<and> 1 \<le> m \<and> m \<le> 12 \<and> 1 \<le> d \<and> d \<le> days_in_month y m"
proof -
  define n where "n = n0 - 1"
  define a where "a = n div 146097"
  define r1 where "r1 = n mod 146097"
  define b where "b = r1 div 36524"
  define r2 where "r2 = r1 mod 36524"
  define c where "c = r2 div 1461"
  define r3 where "r3 = r2 mod 1461"
  define e where "e = r3 div 365"
  define r4 where "r4 = r3 mod 365"
  have n: "n0 = n + 1" using n0 by (simp add: n_def)
  have d1: "n = 146097 * a + r1" by (simp add: a_def r1_def)
  have d2: "r1 = 36524 * b + r2" by (simp add: b_def r2_def)
  have d3: "r2 = 1461 * c + r3" by (simp add: c_def r3_def)
  have d4: "r3 = 365 * e + r4" by (simp add: e_def r4_def)
  have b1: "r1 < 146097" by (simp add: r1_def)
  have b2: "r2 < 36524" by (simp add: r2_def)
  have b3: "r3 < 1461" by (simp add: r3_def)
  have b4: "r4 < 365" by (simp add: r4_def)
  have b: "b \<le> 4" using b1 d2 by simp
  have c: "c \<le> 24" using b2 d3 by simp
  have e: "e \<le> 4" using b3 d4 by simp
  have dims: "days_in_month y m = DAYS_IN_MONTH ! m + (if m = 2 \<and> is_leap y then 1 else 0)" for y m
    by (simp add: days_in_month_def DAYS_IN_MONTH_def)
  have unfolded: "ord2ymd n0 =
      (if e = 4 \<or> b = 4 then (a * 400 + 1 + b * 100 + c * 4 + e - 1, 12, 31)
       else case month_day r4 (e = 3 \<and> (c \<noteq> 24 \<or> b = 3)) of
              (m, d) \<Rightarrow> (a * 400 + 1 + b * 100 + c * 4 + e, m, d))"
    unfolding ord2ymd_def Let_def n_def [symmetric] a_def [symmetric] r1_def [symmetric]
      b_def [symmetric] r2_def [symmetric] c_def [symmetric] r3_def [symmetric]
      e_def [symmetric] r4_def [symmetric] ..
  show ?thesis
  proof (cases "b = 4")
    case True
    with b1 d2 have "r2 = 0" by simp
    with d3 d4 have z: "c = 0" "e = 0" "r4 = 0" "r3 = 0" by simp_all
    from r unfolded True z have res: "y = 400 * a + 400" "m = 12" "d = 31" by simp_all
    have "ymd2ord y m d = n0"
      unfolding res ymd2ord_def days_before_month_def days_before_year_400
      using is_leap_400 [of a] n d1 d2 True \<open>r2 = 0\<close>
      by (simp add: DAYS_BEFORE_MONTH_def)
    then show ?thesis using res by (simp add: days_in_month_def DAYS_IN_MONTH_def)
  next
    case nb: False
    with b have b3': "b \<le> 3" by simp
    show ?thesis
    proof (cases "e = 4")
      case True
      with b3 d4 have r4z: "r4 = 0" by simp
      have c23: "c \<le> 23"
      proof (rule ccontr)
        assume "\<not> c \<le> 23"
        with c have "c = 24" by simp
        with d3 d4 True b2 show False by simp
      qed
      from r unfolded True have res: "y = 400 * a + 100 * b + 4 * c + 3 + 1" "m = 12" "d = 31"
        by simp_all
      have dby: "days_before_year y = 146097 * a + 36524 * b + 1461 * c + 365 * 3"
        unfolding res using b3' c by (intro days_before_year_cycle) simp_all
      have leap: "is_leap y" unfolding res using is_leap_cycle [of b c 3 a] b3' c c23 by simp
      have "ymd2ord y m d = n0"
        unfolding ymd2ord_def dby days_before_month_def
        using leap res n d1 d2 d3 d4 True r4z by (simp add: DAYS_BEFORE_MONTH_def)
      then show ?thesis using res by (simp add: days_in_month_def DAYS_IN_MONTH_def)
    next
      case ne: False
      with e have e3: "e \<le> 3" by simp
      let ?L = "e = 3 \<and> (c \<noteq> 24 \<or> b = 3)"
      obtain m' d' where md: "month_day r4 ?L = (m', d')" by (cases "month_day r4 ?L")
      from r unfolded nb ne md have res: "y = 400 * a + 100 * b + 4 * c + e + 1" "m = m'" "d = d'"
        by simp_all
      have dby: "days_before_year y = 146097 * a + 36524 * b + 1461 * c + 365 * e"
        unfolding res using b3' c e3 by (intro days_before_year_cycle)
      have leap: "is_leap y = ?L" unfolding res using b3' c e3 by (intro is_leap_cycle)
      have "r4 < 365 + (if ?L then 1 else 0)" using b4 by simp
      from month_day_ok [OF this md]
      have ok: "DAYS_BEFORE_MONTH ! m + (if m > 2 \<and> ?L then 1 else 0) + d = r4 + 1"
        and rng: "1 \<le> m" "m \<le> 12" "1 \<le> d" "d \<le> DAYS_IN_MONTH ! m + (if m = 2 \<and> ?L then 1 else 0)"
        unfolding res(2,3) by simp_all
      have "ymd2ord y m d = days_before_year y + (DAYS_BEFORE_MONTH ! m + (if m > 2 \<and> ?L then 1 else 0) + d)"
        unfolding ymd2ord_def days_before_month_def leap by simp
      also have "\<dots> = n0" unfolding ok dby using n d1 d2 d3 d4 by simp
      finally have "ymd2ord y m d = n0" .
      moreover have "d \<le> days_in_month y m" unfolding dims leap using rng(4) .
      ultimately show ?thesis using rng res(1) by simp
    qed
  qed
qed

lemma year_days_9999:
  "9999 \<le> z \<Longrightarrow> 3652059 + z div 100 \<le> z * 365 + z div 4 + z div (400::nat)"
proof (induction z rule: dec_induct)
  case base
  show ?case by simp
next
  case (step n)
  have "n div 4 \<le> Suc n div 4" by (rule div_le_mono) simp
  moreover have "Suc n div 100 \<le> n div 100 + 1" by (simp add: div_Suc)
  moreover have "n div 400 \<le> Suc n div 400" by (rule div_le_mono) simp
  moreover have "Suc n * 365 = n * 365 + 365" by simp
  ultimately show ?case using step.IH by linarith
qed

lemma diff_add_bound: "(q::nat) \<le> p \<Longrightarrow> k + q \<le> p + c \<Longrightarrow> k \<le> p - q + c"
  by linarith

lemma days_before_year_10000: "10000 \<le> y \<Longrightarrow> 3652059 \<le> days_before_year y"
proof -
  assume y: "10000 \<le> y"
  define z where "z = y - 1"
  have "9999 \<le> z" using y by (simp add: z_def)
  from year_days_9999 [OF this]
  have 1: "3652059 + z div 100 \<le> z * 365 + z div 4 + z div 400" .
  have "z div 100 \<le> z div 4" by (rule div_le_mono2) simp_all
  then have 2: "z div 100 \<le> z * 365 + z div 4" by simp
  from diff_add_bound [OF 2 1] show ?thesis
    unfolding days_before_year_def Let_def z_def .
qed

lemma ord2ymd_year:
  assumes n0: "1 \<le> n0" "n0 \<le> 3652059" and r: "ord2ymd n0 = (y, m, d)"
  shows "y \<le> 9999"
proof (rule ccontr)
  assume "\<not> y \<le> 9999"
  then have "3652059 \<le> days_before_year y" by (intro days_before_year_10000) simp
  moreover from ord2ymd_ok [OF n0(1) r] have "ymd2ord y m d = n0" "1 \<le> d" by simp_all
  ultimately show False using n0(2) by (simp add: ymd2ord_def)
qed

lemma of_seconds_ok:
  assumes w: "of_seconds t = Some w"
  shows "to_seconds w = t \<and> valid_datetime w"
proof -
  define n where "n = t div 86400"
  define r where "r = nat (t mod 86400)"
  have rng: "1 \<le> n" "n \<le> 3652059"
    using w by (auto simp: of_seconds_def Let_def n_def split: if_splits)
  obtain y m d where ymd: "ord2ymd (nat n) = (y, m, d)" by (cases "ord2ymd (nat n)")
  have wv: "w = \<lparr> year = y, month = m, day = d,
                  hour = r div 3600, minute = (r mod 3600) div 60, second = r mod 60 \<rparr>"
    using w rng ymd by (simp add: of_seconds_def Let_def n_def r_def)
  have n1: "1 \<le> nat n" and n2: "nat n \<le> 3652059" using rng by simp_all
  from ord2ymd_ok [OF n1 ymd] have ord: "ymd2ord y m d = nat n"
    and v: "1 \<le> y" "1 \<le> m" "m \<le> 12" "1 \<le> d" "d \<le> days_in_month y m" by simp_all
  from ord2ymd_year [OF n1 n2 ymd] have y: "y \<le> 9999" .
  have r86400: "r < 86400" by (simp add: r_def nat_less_iff)
  have t: "t = n * 86400 + int r" by (simp add: n_def r_def)
  have rr: "r div 3600 * 3600 + (r mod 3600) div 60 * 60 + r mod 60 = r"
  proof -
    have "r mod 3600 mod 60 = r mod 60" by (simp add: mod_mod_cancel)
    with div_mult_mod_eq [of "r mod 3600" 60]
    have "(r mod 3600) div 60 * 60 + r mod 60 = r mod 3600" by simp
    with div_mult_mod_eq [of r 3600] show ?thesis by linarith
  qed
  have "to_seconds w = int (nat n) * 86400 + int (r div 3600 * 3600 + (r mod 3600) div 60 * 60 + r mod 60)"
    by (simp add: to_seconds_def wv ord)
  also have "\<dots> = t" unfolding rr t using rng by simp
  finally have "to_seconds w = t" .
  moreover have "valid_datetime w"
    using v y r86400 by (simp add: valid_datetime_def wv less_mult_imp_div_less)
  ultimately show ?thesis by simp
qed

lemma astimezone_WIB_ok:
  assumes "astimezone_WIB lib dt off = Some w"
  shows "to_seconds w = to_seconds dt - off + WIB_utcoffset lib (to_seconds dt - off)
         \<and> valid_datetime w"
proof -
  from assms obtain utc where u: "of_seconds (to_seconds dt - off) = Some utc"
    and w: "of_seconds (to_seconds utc + WIB_utcoffset lib (to_seconds utc)) = Some w"
    by (auto simp: astimezone_WIB_def split: option.splits)
  from of_seconds_ok [OF u] of_seconds_ok [OF w] show ?thesis by simp
qed

lemma days_before_month_le: "m \<le> 12 \<Longrightarrow> days_before_month y m \<le> 335"
proof -
  assume "m \<le> 12"
  then consider "m = 0" | "m = 1" | "m = 2" | "m = 3" | "m = 4" | "m = 5" | "m = 6" | "m = 7"
    | "m = 8" | "m = 9" | "m = 10" | "m = 11" | "m = 12" by atomize_elim arith
  then show ?thesis by cases (simp_all add: days_before_month_def DAYS_BEFORE_MONTH_def)
qed

lemma ymd2ord_bounds:
  assumes v: "valid_datetime dt" and lo: "2 \<le> year dt" and hi: "year dt \<le> 9998"
  shows "366 \<le> ymd2ord (year dt) (month dt) (day dt)"
    and "ymd2ord (year dt) (month dt) (day dt) \<le> 3651794"
proof -
  define z where "z = year dt - 1"
  have z: "1 \<le> z" "z \<le> 9997" using lo hi by (simp_all add: z_def)
  have q: "z div 100 \<le> z div 4" by (rule div_le_mono2) simp_all
  have dby: "days_before_year (year dt) = z * 365 + z div 4 - z div 100 + z div 400"
    by (simp add: days_before_year_def Let_def z_def)
  from v have m: "month dt \<le> 12" and d1: "1 \<le> day dt"
    and d2: "day dt \<le> days_in_month (year dt) (month dt)" by (simp_all add: valid_datetime_def)
  from d2 days_in_month_le [OF m, of "year dt"] have d: "day dt \<le> 31" by simp
  have "365 \<le> z * 365" using z(1) by simp
  with q have "365 \<le> days_before_year (year dt)" unfolding dby by linarith
  with d1 show "366 \<le> ymd2ord (year dt) (month dt) (day dt)" by (simp add: ymd2ord_def)
  have "z * 365 \<le> 9997 * 365" using z(2) by simp
  moreover have "z div 4 \<le> 9997 div 4" using z(2) by (rule div_le_mono)
  moreover have "z div 400 \<le> 9997 div 400" using z(2) by (rule div_le_mono)
  ultimately have "days_before_year (year dt) \<le> 3651428" unfolding dby by simp
  with days_before_month_le [OF m, of "year dt"] d
  show "ymd2ord (year dt) (month dt) (day dt) \<le> 3651794" by (simp add: ymd2ord_def)
qed

lemma of_seconds_defined: "86400 \<le> t \<Longrightarrow> t < 3652060 * 86400 \<Longrightarrow> \<exists>w. of_seconds t = Some w"
proof -
  assume lo: "86400 \<le> t" and hi: "t < 3652060 * 86400"
  have "1 \<le> t div 86400" using lo by simp
  moreover have "t div 86400 < 3652060" using hi by simp
  ultimately show ?thesis by (auto simp: of_seconds_def Let_def split: prod.splits)
qed

lemma astimezone_WIB_defined:
  assumes v: "valid_datetime dt" and lo: "2 \<le> year dt" and hi: "year dt \<le> 9998"
    and off: "- 86400 < off" "off < 86400"
    and since: "Y1964 \<le> to_seconds dt - off"
  shows "\<exists>w. astimezone_WIB lib dt off = Some w"
proof -
  from v have hms: "hour dt < 24" "minute dt < 60" "second dt < 60"
    by (simp_all add: valid_datetime_def)
  let ?o = "ymd2ord (year dt) (month dt) (day dt)"
  from ymd2ord_bounds [OF v lo hi] have o: "366 \<le> ?o" "?o \<le> 3651794" .
  have t1: "int ?o * 86400 \<le> to_seconds dt" by (simp add: to_seconds_def)
  have t2: "to_seconds dt < int ?o * 86400 + 86400" using hms by (simp add: to_seconds_def)
  from o t1 t2 off have "86400 \<le> to_seconds dt - off" "to_seconds dt - off < 3652060 * 86400"
    by linarith+
  from of_seconds_defined [OF this] obtain utc where u: "of_seconds (to_seconds dt - off) = Some utc"
    by blast
  from of_seconds_ok [OF u] have tu: "to_seconds utc = to_seconds dt - off" by simp
  have wib: "WIB_utcoffset lib (to_seconds dt - off) = 25200"
    using since by (simp add: WIB_utcoffset_def)
  from o t1 t2 off have "86400 \<le> to_seconds utc + WIB_utcoffset lib (to_seconds utc)"
    "to_seconds utc + WIB_utcoffset lib (to_seconds utc) < 3652060 * 86400"
    unfolding tu wib by linarith+
  from of_seconds_defined [OF this] obtain w
    where "of_seconds (to_seconds utc + WIB_utcoffset lib (to_seconds utc)) = Some w"
    by blast
  with u show ?thesis by (simp add: astimezone_WIB_def)
qed

lemma utcoffset_seconds_range:
  "h < 24 \<Longrightarrow> m < 60 \<Longrightarrow> - 86400 < utcoffset_seconds west h m \<and> utcoffset_seconds west h m < 86400"
  by (simp add: utcoffset_seconds_def)

end
